theory Spec2Isabelle
  imports Main "HOL-Library.Word"
begin

unbundle bit_operations_syntax

section \<open>MoQSession.cpp: the session engine of the Media-over-QUIC transport\<close>

text \<open>
  A shallow embedding of \<^verbatim>\<open>moxygen/MoQSession.cpp\<close>. Machine integers are words of
  the width the source declares (\<^verbatim>\<open>uint8_t\<close>, \<^verbatim>\<open>uint32_t\<close>, \<^verbatim>\<open>uint64_t\<close>), an
  object whose methods mutate it is a record passed in and returned, and every call on an
  external collaborator (the WebTransport stream handle, the control codec, the
  application queue) is appended to a log kept in that record.
\<close>

subsection \<open>Priority encoder\<close>

text \<open>
  Modelled from the spec: the enum \<^verbatim>\<open>GroupOrder\<close> is declared in a header that is not
  part of the sources; section 4.1 gives its two values.
\<close>

datatype GroupOrder = OldestFirst | NewestFirst

definition IdMask :: "32 word" where
  "IdMask = 0x1FFFFF"

text \<open>\<^verbatim>\<open>static_cast<uint32_t>(group)\<close> is \<^const>\<open>ucast\<close> to 32 bits.\<close>

definition groupPriorityBits :: "GroupOrder \<Rightarrow> 64 word \<Rightarrow> 32 word" where
  "groupPriorityBits groupOrder groupV =
     (let truncGroup = (ucast groupV :: 32 word) AND IdMask
      in if groupOrder = OldestFirst then truncGroup else IdMask - truncGroup)"

definition subgroupPriorityBits :: "32 word \<Rightarrow> 32 word" where
  "subgroupPriorityBits subgroupID = subgroupID AND IdMask"

text \<open>
  \<^verbatim>\<open>groupBits\<close> and \<^verbatim>\<open>subgroupBits\<close> are \<^verbatim>\<open>uint32_t\<close>. The parameter of
  \<^verbatim>\<open>subgroupPriorityBits\<close> is a \<^verbatim>\<open>uint32_t\<close>, so the 64-bit \<^verbatim>\<open>subgroupID\<close> is
  narrowed at the call. In \<^verbatim>\<open>(groupBits << 21)\<close> both operands are 32 bits wide: the
  shift is done on 32 bits and only its result is widened for the \<^verbatim>\<open>|\<close> with the
  64-bit operands.
\<close>

definition getStreamPriority ::
  "64 word \<Rightarrow> 64 word \<Rightarrow> 8 word \<Rightarrow> 8 word \<Rightarrow> GroupOrder \<Rightarrow> 64 word" where
  "getStreamPriority groupID subgroupID subPri pubPri pubGroupOrder =
     (let groupBits = groupPriorityBits pubGroupOrder groupID;
          subgroupBits = subgroupPriorityBits (ucast subgroupID)
      in push_bit 50 (ucast subPri :: 64 word) OR push_bit 42 (ucast pubPri :: 64 word)
         OR ucast (push_bit 21 groupBits :: 32 word) OR ucast subgroupBits)"

text \<open>
  The layout as section 4.1 of the specification words it, every field shifted as a
  64-bit value: 8 bits of subscriber priority, 8 of publisher priority, 21 group bits and
  21 subgroup bits.
\<close>

definition specGroupBits :: "GroupOrder \<Rightarrow> 64 word \<Rightarrow> 64 word" where
  "specGroupBits groupOrder groupID =
     (if groupOrder = OldestFirst then groupID AND 0x1FFFFF
      else (2 ^ 21 - 1) - (groupID AND 0x1FFFFF))"

definition specPriority ::
  "64 word \<Rightarrow> 64 word \<Rightarrow> 8 word \<Rightarrow> 8 word \<Rightarrow> GroupOrder \<Rightarrow> 64 word" where
  "specPriority groupID subgroupID subPri pubPri groupOrder =
     push_bit 50 (ucast subPri) OR push_bit 42 (ucast pubPri)
     OR push_bit 21 (specGroupBits groupOrder groupID) OR (subgroupID AND 0x1FFFFF)"

subsection \<open>Stream writer: \<^verbatim>\<open>StreamPublisherImpl\<close>\<close>

type_synonym SubscribeID = "64 word"
type_synonym TrackAlias = "64 word"

text \<open>
  \<^verbatim>\<open>Payload\<close> is a \<^verbatim>\<open>std::unique_ptr<folly::IOBuf>\<close>: \<^const>\<open>None\<close> is the null
  pointer, \<^term>\<open>Some bs\<close> a buffer chain holding the bytes \<^term>\<open>bs\<close>.
  \<^verbatim>\<open>computeChainDataLength\<close> returns a 64-bit \<^verbatim>\<open>size_t\<close>.
\<close>

type_synonym Payload = "8 word list option"

definition chainDataLength :: "Payload \<Rightarrow> 64 word" where
  "chainDataLength payload = (case payload of None \<Rightarrow> 0 | Some bs \<Rightarrow> of_nat (length bs))"

datatype TrackIdentifier = BySubscribeID SubscribeID | ByTrackAlias TrackAlias

datatype ObjectStatus =
  NORMAL | OBJECT_NOT_EXIST | GROUP_NOT_EXIST | END_OF_GROUP | END_OF_TRACK_AND_GROUP
  | END_OF_SUBGROUP

datatype StreamType = FETCH_HEADER | STREAM_HEADER_SUBGROUP | OBJECT_DATAGRAM

datatype ResetStreamErrorCode = Reset_INTERNAL_ERROR | Reset_CANCELLED | Reset_SESSION_CLOSED

datatype PublishErrorCode = API_ERROR | WRITE_ERROR | CANCELLED | BLOCKED

datatype MoQPublishError = MoQPublishError PublishErrorCode string

datatype ObjectPublishStatus = IN_PROGRESS | DONE

record ObjectHeader =
  trackIdentifier :: TrackIdentifier
  hdr_group :: "64 word"
  hdr_subgroup :: "64 word"
  hdr_id :: "64 word"
  hdr_priority :: "8 word"
  hdr_status :: ObjectStatus
  hdr_length :: "64 word option"

text \<open>
  What the framer calls and \<^verbatim>\<open>writeBuf_.append\<close> put into \<^verbatim>\<open>writeBuf_\<close>, and the
  calls made on the transport's \<^verbatim>\<open>StreamWriteHandle\<close>.
\<close>

datatype wire =
  FetchHeaderBytes SubscribeID
  | SubgroupHeaderBytes ObjectHeader
  | ObjectBytes StreamType ObjectHeader Payload
  | PayloadBytes Payload

datatype handle_call =
  WriteStreamData "wire list" bool
  | ResetStream ResetStreamErrorCode

text \<open>
  \<^verbatim>\<open>writeHandle_\<close> is a pointer that is only tested and cleared:
  \<^term>\<open>writeHandle w\<close> holds while it is not null. \<^term>\<open>handleCalls w\<close> lists the
  calls made on the handle and \<^term>\<open>streamCompletes w\<close> the headers passed to
  \<^verbatim>\<open>publisher_->onStreamComplete\<close>, both oldest first.
\<close>

record StreamPublisherImpl =
  writeHandle :: bool
  streamType :: StreamType
  header :: ObjectHeader
  currentLengthRemaining :: "64 word option"
  writeBuf :: "wire list"
  handleCalls :: "handle_call list"
  streamCompletes :: "ObjectHeader list"

text \<open>\<^verbatim>\<open>std::numeric_limits<uint64_t>::max()\<close>, the value of \<^verbatim>\<open>header_.id\<close> before
  any object is written.\<close>

definition uint64_max :: "64 word" where
  "uint64_max = 0xFFFFFFFFFFFFFFFF"

definition setGroupAndSubgroup ::
  "64 word \<Rightarrow> 64 word \<Rightarrow> StreamPublisherImpl \<Rightarrow> bool \<times> StreamPublisherImpl" where
  "setGroupAndSubgroup groupID subgroupID w =
     (if groupID < hdr_group (header w) then (False, w)
      else
        let w1 = (if groupID > hdr_group (header w)
                  then w\<lparr>header := (header w)\<lparr>hdr_id := uint64_max\<rparr>\<rparr> else w)
        in (True, w1\<lparr>header := (header w1)\<lparr>hdr_group := groupID, hdr_subgroup := subgroupID\<rparr>\<rparr>))"

text \<open>The fetch constructor, and the subscribe constructor that delegates to it.\<close>

definition newFetchStream :: "SubscribeID \<Rightarrow> StreamPublisherImpl" where
  "newFetchStream subscribeID =
     \<lparr>writeHandle = True, streamType = FETCH_HEADER,
      header = \<lparr>trackIdentifier = BySubscribeID subscribeID, hdr_group = 0, hdr_subgroup = 0,
                hdr_id = uint64_max, hdr_priority = 0, hdr_status = NORMAL,
                hdr_length = None\<rparr>,
      currentLengthRemaining = None, writeBuf = [FetchHeaderBytes subscribeID],
      handleCalls = [], streamCompletes = []\<rparr>"

definition newSubgroupStream ::
  "SubscribeID \<Rightarrow> TrackAlias \<Rightarrow> 64 word \<Rightarrow> 64 word \<Rightarrow> StreamPublisherImpl" where
  "newSubgroupStream subscribeID alias groupID subgroupID =
     (let w0 = newFetchStream subscribeID;
          w1 = w0\<lparr>streamType := STREAM_HEADER_SUBGROUP,
                   header := (header w0)\<lparr>trackIdentifier := ByTrackAlias alias\<rparr>\<rparr>;
          w2 = snd (setGroupAndSubgroup groupID subgroupID w1)
      in w2\<lparr>writeBuf := [SubgroupHeaderBytes (header w2)]\<rparr>)"

definition onStreamComplete :: "StreamPublisherImpl \<Rightarrow> StreamPublisherImpl" where
  "onStreamComplete w = w\<lparr>streamCompletes := streamCompletes w @ [header w]\<rparr>"

definition reset :: "ResetStreamErrorCode \<Rightarrow> StreamPublisherImpl \<Rightarrow> StreamPublisherImpl" where
  "reset error w =
     onStreamComplete
       (if writeHandle w
        then w\<lparr>writeHandle := False, handleCalls := handleCalls w @ [ResetStream error]\<rparr>
        else w)"

definition validatePublish ::
  "64 word \<Rightarrow> StreamPublisherImpl \<Rightarrow> (MoQPublishError + unit) \<times> StreamPublisherImpl" where
  "validatePublish objectID w =
     (if currentLengthRemaining w \<noteq> None
      then (Inl (MoQPublishError API_ERROR ''Previous object incomplete''),
            reset Reset_INTERNAL_ERROR w)
      else if hdr_id (header w) \<noteq> uint64_max \<and> objectID \<le> hdr_id (header w)
      then (Inl (MoQPublishError API_ERROR ''Object ID not advancing in subgroup''),
            reset Reset_INTERNAL_ERROR w)
      else if \<not> writeHandle w
      then (Inl (MoQPublishError API_ERROR ''Subgroup reset''), w)
      else (Inr (), w))"

text \<open>
  \<^verbatim>\<open>writeToStream\<close> calls \<^verbatim>\<open>writeStreamData\<close> through the handle without testing it:
  with a null handle the call has no defined result, which is \<^const>\<open>None\<close> here. The
  transport's answer to \<^verbatim>\<open>writeStreamData\<close> is the parameter \<^term>\<open>writeRes\<close>
  (true for a value, false for an error).
\<close>

definition writeToStream ::
  "bool \<Rightarrow> bool \<Rightarrow> StreamPublisherImpl
   \<Rightarrow> ((MoQPublishError + unit) \<times> StreamPublisherImpl) option" where
  "writeToStream finStream writeRes w =
     (if \<not> writeHandle w then None
      else
        let w1 = w\<lparr>writeHandle := \<not> finStream,
                   writeBuf := [],
                   handleCalls := handleCalls w @ [WriteStreamData (writeBuf w) finStream]\<rparr>
        in if writeRes
           then Some (Inr (), if finStream then onStreamComplete w1 else w1)
           else Some (Inl (MoQPublishError WRITE_ERROR ''write error''),
                      reset Reset_INTERNAL_ERROR w1))"

definition writeCurrentObject ::
  "64 word \<Rightarrow> 64 word \<Rightarrow> Payload \<Rightarrow> bool \<Rightarrow> bool \<Rightarrow> StreamPublisherImpl
   \<Rightarrow> ((MoQPublishError + unit) \<times> StreamPublisherImpl) option" where
  "writeCurrentObject objectID len payload finStream writeRes w =
     (let w1 = w\<lparr>header := (header w)\<lparr>hdr_id := objectID, hdr_length := Some len\<rparr>\<rparr>;
          w2 = w1\<lparr>writeBuf := writeBuf w1 @ [ObjectBytes (streamType w1) (header w1) payload]\<rparr>
      in writeToStream finStream writeRes w2)"

definition validateObjectPublishAndUpdateState ::
  "Payload \<Rightarrow> bool \<Rightarrow> StreamPublisherImpl
   \<Rightarrow> (MoQPublishError + ObjectPublishStatus) \<times> StreamPublisherImpl" where
  "validateObjectPublishAndUpdateState payload finStream w =
     (let len = chainDataLength payload
      in case currentLengthRemaining w of
           None \<Rightarrow> (Inl (MoQPublishError API_ERROR ''Not publishing object''), w)
         | Some remaining \<Rightarrow>
             if len > remaining
             then (Inl (MoQPublishError API_ERROR ''Length exceeds remaining in object''),
                   reset Reset_INTERNAL_ERROR w)
             else
               let w1 = w\<lparr>currentLengthRemaining := Some (remaining - len)\<rparr>
               in if remaining - len = 0
                  then (Inr DONE, w1\<lparr>currentLengthRemaining := None\<rparr>)
                  else if finStream
                  then (Inl (MoQPublishError API_ERROR ''finStream with open object''),
                        reset Reset_INTERNAL_ERROR w1)
                  else (Inr IN_PROGRESS, w1))"

subsubsection \<open>The \<^verbatim>\<open>SubgroupConsumer\<close> interface\<close>

definition object ::
  "64 word \<Rightarrow> Payload \<Rightarrow> bool \<Rightarrow> bool \<Rightarrow> StreamPublisherImpl
   \<Rightarrow> ((MoQPublishError + unit) \<times> StreamPublisherImpl) option" where
  "object objectID payload finStream writeRes w =
     (case validatePublish objectID w of
        (Inl e, w1) \<Rightarrow> Some (Inl e, w1)
      | (Inr u, w1) \<Rightarrow>
          writeCurrentObject objectID (chainDataLength payload) payload finStream writeRes w1)"

definition publishStatus ::
  "64 word \<Rightarrow> ObjectStatus \<Rightarrow> bool \<Rightarrow> bool \<Rightarrow> StreamPublisherImpl
   \<Rightarrow> ((MoQPublishError + unit) \<times> StreamPublisherImpl) option" where
  "publishStatus objectID status finStream writeRes w =
     (case validatePublish objectID w of
        (Inl e, w1) \<Rightarrow> Some (Inl e, w1)
      | (Inr u, w1) \<Rightarrow>
          writeCurrentObject objectID 0 None finStream writeRes
            (w1\<lparr>header := (header w1)\<lparr>hdr_status := status\<rparr>\<rparr>))"

definition objectNotExists ::
  "64 word \<Rightarrow> bool \<Rightarrow> bool \<Rightarrow> StreamPublisherImpl
   \<Rightarrow> ((MoQPublishError + unit) \<times> StreamPublisherImpl) option" where
  "objectNotExists objectID finStream writeRes w =
     publishStatus objectID OBJECT_NOT_EXIST finStream writeRes w"

definition beginObject ::
  "64 word \<Rightarrow> 64 word \<Rightarrow> Payload \<Rightarrow> bool \<Rightarrow> StreamPublisherImpl
   \<Rightarrow> ((MoQPublishError + unit) \<times> StreamPublisherImpl) option" where
  "beginObject objectID len initialPayload writeRes w =
     (case validatePublish objectID w of
        (Inl e, w1) \<Rightarrow> Some (Inl e, w1)
      | (Inr u, w1) \<Rightarrow>
          (case validateObjectPublishAndUpdateState initialPayload False
                  (w1\<lparr>currentLengthRemaining := Some len\<rparr>) of
             (Inl e, w2) \<Rightarrow> Some (Inl e, w2)
           | (Inr st, w2) \<Rightarrow> writeCurrentObject objectID len initialPayload False writeRes w2))"

definition objectPayload ::
  "Payload \<Rightarrow> bool \<Rightarrow> bool \<Rightarrow> StreamPublisherImpl
   \<Rightarrow> ((MoQPublishError + ObjectPublishStatus) \<times> StreamPublisherImpl) option" where
  "objectPayload payload finStream writeRes w =
     (case validateObjectPublishAndUpdateState payload finStream w of
        (Inl e, w1) \<Rightarrow> Some (Inl e, w1)
      | (Inr st, w1) \<Rightarrow>
          (case writeToStream finStream writeRes
                  (w1\<lparr>writeBuf := writeBuf w1 @ [PayloadBytes payload]\<rparr>) of
             None \<Rightarrow> None
           | Some (Inr u, w2) \<Rightarrow> Some (Inr st, w2)
           | Some (Inl e, w2) \<Rightarrow> Some (Inl e, w2)))"

definition endOfGroup ::
  "64 word \<Rightarrow> bool \<Rightarrow> StreamPublisherImpl
   \<Rightarrow> ((MoQPublishError + unit) \<times> StreamPublisherImpl) option" where
  "endOfGroup endOfGroupObjectId writeRes w =
     publishStatus endOfGroupObjectId END_OF_GROUP True writeRes w"

definition endOfTrackAndGroup ::
  "64 word \<Rightarrow> bool \<Rightarrow> StreamPublisherImpl
   \<Rightarrow> ((MoQPublishError + unit) \<times> StreamPublisherImpl) option" where
  "endOfTrackAndGroup endOfTrackObjectId writeRes w =
     publishStatus endOfTrackObjectId END_OF_TRACK_AND_GROUP True writeRes w"

definition endOfSubgroup ::
  "bool \<Rightarrow> StreamPublisherImpl
   \<Rightarrow> ((MoQPublishError + unit) \<times> StreamPublisherImpl) option" where
  "endOfSubgroup writeRes w =
     (if currentLengthRemaining w \<noteq> None
      then Some (Inl (MoQPublishError API_ERROR ''Previous object incomplete''),
                 reset Reset_INTERNAL_ERROR w)
      else writeToStream True writeRes w)"

subsubsection \<open>The \<^verbatim>\<open>FetchConsumer\<close> interface\<close>

text \<open>
  The C++ overloads that take \<^verbatim>\<open>(groupID, subgroupID)\<close> first carry the suffix
  \<open>_fetch\<close>. Each one calls \<^const>\<open>setGroupAndSubgroup\<close> and then the operation of
  the same name above.
\<close>

definition groupMovedBack :: MoQPublishError where
  "groupMovedBack = MoQPublishError API_ERROR ''Group moved back''"

definition object_fetch ::
  "64 word \<Rightarrow> 64 word \<Rightarrow> 64 word \<Rightarrow> Payload \<Rightarrow> bool \<Rightarrow> bool \<Rightarrow> StreamPublisherImpl
   \<Rightarrow> ((MoQPublishError + unit) \<times> StreamPublisherImpl) option" where
  "object_fetch groupID subgroupID objectID payload finFetch writeRes w =
     (case setGroupAndSubgroup groupID subgroupID w of
        (False, w1) \<Rightarrow> Some (Inl groupMovedBack, w1)
      | (True, w1) \<Rightarrow>
          object objectID payload finFetch writeRes
            (w1\<lparr>header := (header w1)\<lparr>hdr_status := NORMAL\<rparr>\<rparr>))"

definition objectNotExists_fetch ::
  "64 word \<Rightarrow> 64 word \<Rightarrow> 64 word \<Rightarrow> bool \<Rightarrow> bool \<Rightarrow> StreamPublisherImpl
   \<Rightarrow> ((MoQPublishError + unit) \<times> StreamPublisherImpl) option" where
  "objectNotExists_fetch groupID subgroupID objectID finFetch writeRes w =
     (case setGroupAndSubgroup groupID subgroupID w of
        (False, w1) \<Rightarrow> Some (Inl groupMovedBack, w1)
      | (True, w1) \<Rightarrow> objectNotExists objectID finFetch writeRes w1)"

definition groupNotExists_fetch ::
  "64 word \<Rightarrow> 64 word \<Rightarrow> bool \<Rightarrow> bool \<Rightarrow> StreamPublisherImpl
   \<Rightarrow> ((MoQPublishError + unit) \<times> StreamPublisherImpl) option" where
  "groupNotExists_fetch groupID subgroupID finFetch writeRes w =
     (case setGroupAndSubgroup groupID subgroupID w of
        (False, w1) \<Rightarrow> Some (Inl groupMovedBack, w1)
      | (True, w1) \<Rightarrow> publishStatus 0 GROUP_NOT_EXIST finFetch writeRes w1)"

definition beginObject_fetch ::
  "64 word \<Rightarrow> 64 word \<Rightarrow> 64 word \<Rightarrow> 64 word \<Rightarrow> Payload \<Rightarrow> bool \<Rightarrow> StreamPublisherImpl
   \<Rightarrow> ((MoQPublishError + unit) \<times> StreamPublisherImpl) option" where
  "beginObject_fetch groupID subgroupID objectID len initialPayload writeRes w =
     (case setGroupAndSubgroup groupID subgroupID w of
        (False, w1) \<Rightarrow> Some (Inl groupMovedBack, w1)
      | (True, w1) \<Rightarrow>
          beginObject objectID len initialPayload writeRes
            (w1\<lparr>header := (header w1)\<lparr>hdr_status := NORMAL\<rparr>\<rparr>))"

definition endOfGroup_fetch ::
  "64 word \<Rightarrow> 64 word \<Rightarrow> 64 word \<Rightarrow> bool \<Rightarrow> bool \<Rightarrow> StreamPublisherImpl
   \<Rightarrow> ((MoQPublishError + unit) \<times> StreamPublisherImpl) option" where
  "endOfGroup_fetch groupID subgroupID objectID finFetch writeRes w =
     (case setGroupAndSubgroup groupID subgroupID w of
        (False, w1) \<Rightarrow> Some (Inl groupMovedBack, w1)
      | (True, w1) \<Rightarrow> publishStatus objectID END_OF_GROUP finFetch writeRes w1)"

definition endOfTrackAndGroup_fetch ::
  "64 word \<Rightarrow> 64 word \<Rightarrow> 64 word \<Rightarrow> bool \<Rightarrow> StreamPublisherImpl
   \<Rightarrow> ((MoQPublishError + unit) \<times> StreamPublisherImpl) option" where
  "endOfTrackAndGroup_fetch groupID subgroupID objectID writeRes w =
     (case setGroupAndSubgroup groupID subgroupID w of
        (False, w1) \<Rightarrow> Some (Inl groupMovedBack, w1)
      | (True, w1) \<Rightarrow> endOfTrackAndGroup objectID writeRes w1)"

definition endOfFetch ::
  "bool \<Rightarrow> StreamPublisherImpl
   \<Rightarrow> ((MoQPublishError + unit) \<times> StreamPublisherImpl) option" where
  "endOfFetch writeRes w =
     (if \<not> writeHandle w
      then Some (Inl (MoQPublishError CANCELLED ''Fetch cancelled''), w)
      else endOfSubgroup writeRes w)"

subsubsection \<open>Sequences of calls on one writer\<close>

text \<open>
  The application drives a writer through one of the two interfaces. A call is paired
  with the transport's answer to the write it may make; \<^const>\<open>None\<close> is a run that
  reached the null handle in \<^const>\<open>writeToStream\<close>.
\<close>

datatype subgroup_call =
  SObject "64 word" Payload bool
  | SObjectNotExists "64 word" bool
  | SBeginObject "64 word" "64 word" Payload
  | SObjectPayload Payload bool
  | SEndOfGroup "64 word"
  | SEndOfTrackAndGroup "64 word"
  | SEndOfSubgroup
  | SReset ResetStreamErrorCode

datatype fetch_call =
  FObject "64 word" "64 word" "64 word" Payload bool
  | FObjectNotExists "64 word" "64 word" "64 word" bool
  | FGroupNotExists "64 word" "64 word" bool
  | FBeginObject "64 word" "64 word" "64 word" "64 word" Payload
  | FObjectPayload Payload bool
  | FEndOfGroup "64 word" "64 word" "64 word" bool
  | FEndOfTrackAndGroup "64 word" "64 word" "64 word"
  | FEndOfFetch
  | FReset ResetStreamErrorCode

fun subgroupCall ::
  "subgroup_call \<Rightarrow> bool \<Rightarrow> StreamPublisherImpl \<Rightarrow> StreamPublisherImpl option" where
  "subgroupCall (SObject i p fin) wr w = map_option snd (object i p fin wr w)"
| "subgroupCall (SObjectNotExists i fin) wr w = map_option snd (objectNotExists i fin wr w)"
| "subgroupCall (SBeginObject i n p) wr w = map_option snd (beginObject i n p wr w)"
| "subgroupCall (SObjectPayload p fin) wr w = map_option snd (objectPayload p fin wr w)"
| "subgroupCall (SEndOfGroup i) wr w = map_option snd (endOfGroup i wr w)"
| "subgroupCall (SEndOfTrackAndGroup i) wr w = map_option snd (endOfTrackAndGroup i wr w)"
| "subgroupCall SEndOfSubgroup wr w = map_option snd (endOfSubgroup wr w)"
| "subgroupCall (SReset e) wr w = Some (reset e w)"

fun fetchCall ::
  "fetch_call \<Rightarrow> bool \<Rightarrow> StreamPublisherImpl \<Rightarrow> StreamPublisherImpl option" where
  "fetchCall (FObject g sg i p fin) wr w = map_option snd (object_fetch g sg i p fin wr w)"
| "fetchCall (FObjectNotExists g sg i fin) wr w =
     map_option snd (objectNotExists_fetch g sg i fin wr w)"
| "fetchCall (FGroupNotExists g sg fin) wr w =
     map_option snd (groupNotExists_fetch g sg fin wr w)"
| "fetchCall (FBeginObject g sg i n p) wr w =
     map_option snd (beginObject_fetch g sg i n p wr w)"
| "fetchCall (FObjectPayload p fin) wr w = map_option snd (objectPayload p fin wr w)"
| "fetchCall (FEndOfGroup g sg i fin) wr w =
     map_option snd (endOfGroup_fetch g sg i fin wr w)"
| "fetchCall (FEndOfTrackAndGroup g sg i) wr w =
     map_option snd (endOfTrackAndGroup_fetch g sg i wr w)"
| "fetchCall FEndOfFetch wr w = map_option snd (endOfFetch wr w)"
| "fetchCall (FReset e) wr w = Some (reset e w)"

fun subgroupRun ::
  "(subgroup_call \<times> bool) list \<Rightarrow> StreamPublisherImpl \<Rightarrow> StreamPublisherImpl option" where
  "subgroupRun [] w = Some w"
| "subgroupRun ((c, wr) # cs) w =
     (case subgroupCall c wr w of None \<Rightarrow> None | Some w1 \<Rightarrow> subgroupRun cs w1)"

fun fetchRun ::
  "(fetch_call \<times> bool) list \<Rightarrow> StreamPublisherImpl \<Rightarrow> StreamPublisherImpl option" where
  "fetchRun [] w = Some w"
| "fetchRun ((c, wr) # cs) w =
     (case fetchCall c wr w of None \<Rightarrow> None | Some w1 \<Rightarrow> fetchRun cs w1)"

text \<open>The object headers handed to \<^verbatim>\<open>writeStreamData\<close> so far, oldest first.\<close>

fun wireObjects :: "wire \<Rightarrow> ObjectHeader list" where
  "wireObjects (ObjectBytes t h p) = [h]"
| "wireObjects (FetchHeaderBytes i) = []"
| "wireObjects (SubgroupHeaderBytes h) = []"
| "wireObjects (PayloadBytes p) = []"

fun callObjects :: "handle_call \<Rightarrow> ObjectHeader list" where
  "callObjects (WriteStreamData items fin) = concat (map wireObjects items)"
| "callObjects (ResetStream e) = []"

definition objectsWritten :: "StreamPublisherImpl \<Rightarrow> ObjectHeader list" where
  "objectsWritten w = concat (map callObjects (handleCalls w))"

definition tupleOf :: "ObjectHeader \<Rightarrow> 64 word \<times> 64 word \<times> 64 word" where
  "tupleOf h = (hdr_group h, hdr_subgroup h, hdr_id h)"

text \<open>The lexicographic order on (group, subgroup, id).\<close>

fun tupleLe :: "64 word \<times> 64 word \<times> 64 word \<Rightarrow> 64 word \<times> 64 word \<times> 64 word \<Rightarrow> bool" where
  "tupleLe (g, sg, i) (g', sg', i') =
     (g < g' \<or> (g = g' \<and> (sg < sg' \<or> (sg = sg' \<and> i \<le> i'))))"

subsection \<open>Session core: \<^verbatim>\<open>MoQSession\<close>\<close>

datatype SessionCloseErrorCode =
  NO_ERROR | Close_INTERNAL_ERROR | PROTOCOL_VIOLATION | TOO_MANY_SUBSCRIBES

datatype FetchErrorCode = Fetch_INTERNAL_ERROR | INVALID_RANGE

text \<open>
  An error code on the wire is a number. The source writes it either as a literal
  (\<^verbatim>\<open>400\<close>, \<^verbatim>\<open>500\<close>) or as \<^verbatim>\<open>folly::to_underlying\<close> of an enum whose numbering is
  in a header outside the sources; the second form is kept symbolic.
\<close>

datatype ErrorCode = Numeric "64 word" | Underlying FetchErrorCode

type_synonym FullTrackName = "string list \<times> string"

text \<open>
  Modelled from the spec: \<^verbatim>\<open>AbsoluteLocation\<close> and its \<^verbatim>\<open><\<close> are declared outside the
  sources. A location is a (group, object) pair and a fetch whose end lies before its
  start is refused (scenario S3: start (5,0), end (3,0)).
\<close>

type_synonym AbsoluteLocation = "64 word \<times> 64 word"

definition locationLess :: "AbsoluteLocation \<Rightarrow> AbsoluteLocation \<Rightarrow> bool" where
  "locationLess a b = (fst a < fst b \<or> (fst a = fst b \<and> snd a < snd b))"

record SubscribeRequest =
  sub_subscribeID :: SubscribeID
  sub_trackAlias :: TrackAlias
  sub_fullTrackName :: FullTrackName
  sub_priority :: "8 word"
  sub_groupOrder :: GroupOrder

record Fetch =
  fetch_subscribeID :: SubscribeID
  fetch_fullTrackName :: FullTrackName
  fetch_priority :: "8 word"
  fetch_groupOrder :: GroupOrder
  fetch_start :: AbsoluteLocation
  fetch_end :: AbsoluteLocation

record SetupParameter =
  param_key :: "64 word"
  param_asUint64 :: "64 word"
  param_asString :: string

record ClientSetup =
  supportedVersions :: "64 word list"
  client_params :: "SetupParameter list"

record ServerSetup =
  selectedVersion :: "64 word"
  server_params :: "SetupParameter list"

text \<open>The frames the session asks the framer to append to \<^verbatim>\<open>controlWriteBuf_\<close>.\<close>

datatype ControlFrame =
  CLIENT_SETUP ClientSetup
  | SERVER_SETUP ServerSetup
  | SUBSCRIBE SubscribeRequest
  | SUBSCRIBE_ERROR SubscribeID ErrorCode string
  | SUBSCRIBE_DONE SubscribeID
  | FETCH Fetch
  | FETCH_ERROR SubscribeID ErrorCode string
  | MAX_SUBSCRIBE_ID "64 word"

text \<open>The messages queued in \<^verbatim>\<open>controlMessages_\<close> for the application.\<close>

datatype MoQMessage = MsgSubscribeRequest SubscribeRequest | MsgFetch Fetch

text \<open>
  A publisher entry of \<^verbatim>\<open>pubTracks_\<close>. For a fetch publisher the flag says whether
  \<^verbatim>\<open>streamPublisher_\<close> is set, that is whether \<^verbatim>\<open>beginFetch\<close> has opened the stream.
\<close>

datatype Publisher =
  TrackPublisherImpl TrackAlias "8 word" GroupOrder
  | FetchPublisherImpl "8 word" GroupOrder bool

text \<open>A receive state: track name, subscribe ID and whether the callback is still set.\<close>

datatype TrackReceiveState = TrackReceiveState FullTrackName SubscribeID bool

datatype Direction = CLIENT | SERVER

text \<open>
  The members of \<^verbatim>\<open>MoQSession\<close> that the handlers below read or write. The maps are
  association lists with distinct keys, in insertion order. \<^term>\<open>wt s\<close> holds while
  \<^verbatim>\<open>wt_\<close> is not null; \<^term>\<open>closeSessionCalls s\<close> lists the codes passed to
  \<^verbatim>\<open>wt->closeSession\<close>, \<^term>\<open>controlWriteSignals s\<close> counts
  \<^verbatim>\<open>controlWriteEvent_.signal()\<close> and \<^term>\<open>warnings s\<close> keeps the \<^verbatim>\<open>XLOG(WARN)\<close>
  lines of \<^verbatim>\<open>subscribe\<close> and \<^verbatim>\<open>fetch\<close>. Promises, announces and the coroutine
  plumbing are left out.
\<close>

record MoQSession =
  dir :: Direction
  wt :: bool
  closeSessionCalls :: "SessionCloseErrorCode list"
  cancellationRequested :: bool
  setupComplete :: bool
  pubTracks :: "(SubscribeID \<times> Publisher) list"
  subTracks :: "(TrackAlias \<times> TrackReceiveState) list"
  subIdToTrackAlias :: "(SubscribeID \<times> TrackAlias) list"
  fetches :: "(SubscribeID \<times> TrackReceiveState) list"
  controlMessages :: "MoQMessage list"
  controlWriteBuf :: "ControlFrame list"
  controlWriteSignals :: nat
  nextSubscribeID :: "64 word"
  peerMaxSubscribeID :: "64 word"
  maxSubscribeID :: "64 word"
  maxConcurrentSubscribes :: "64 word"
  closedSubscribes :: "64 word"
  warnings :: "string list"

definition erase :: "'k \<Rightarrow> ('k \<times> 'v) list \<Rightarrow> ('k \<times> 'v) list" where
  "erase k al = filter (\<lambda>kv. fst kv \<noteq> k) al"

definition emplace :: "'k \<Rightarrow> 'v \<Rightarrow> ('k \<times> 'v) list \<Rightarrow> ('k \<times> 'v) list" where
  "emplace k v al = (if map_of al k = None then al @ [(k, v)] else al)"

text \<open>
  The framer's write functions live outside the sources. Each returns whether it could
  encode the frame; the handlers take that answer from the parameter \<^term>\<open>codec\<close>, and
  a frame that was encoded is appended to \<^term>\<open>controlWriteBuf s\<close>.
\<close>

definition writeFrame ::
  "(ControlFrame \<Rightarrow> bool) \<Rightarrow> ControlFrame \<Rightarrow> MoQSession \<Rightarrow> bool \<times> MoQSession" where
  "writeFrame codec frame s =
     (if codec frame then (True, s\<lparr>controlWriteBuf := controlWriteBuf s @ [frame]\<rparr>)
      else (False, s))"

definition signal :: "MoQSession \<Rightarrow> MoQSession" where
  "signal s = s\<lparr>controlWriteSignals := Suc (controlWriteSignals s)\<rparr>"

definition sendMaxSubscribeID ::
  "(ControlFrame \<Rightarrow> bool) \<Rightarrow> bool \<Rightarrow> MoQSession \<Rightarrow> MoQSession" where
  "sendMaxSubscribeID codec signalWriteLoop s =
     (case writeFrame codec (MAX_SUBSCRIBE_ID (maxSubscribeID s)) s of
        (False, s1) \<Rightarrow> s1
      | (True, s1) \<Rightarrow> if signalWriteLoop then signal s1 else s1)"

text \<open>\<^verbatim>\<open>++closedSubscribes_\<close> stores the incremented counter before the comparison;
  \<^verbatim>\<open>/\<close> is the unsigned 64-bit division.\<close>

definition retireSubscribeId ::
  "(ControlFrame \<Rightarrow> bool) \<Rightarrow> bool \<Rightarrow> MoQSession \<Rightarrow> MoQSession" where
  "retireSubscribeId codec signalWriteLoop s =
     (let s1 = s\<lparr>closedSubscribes := closedSubscribes s + 1\<rparr>
      in if closedSubscribes s1 \<ge> maxConcurrentSubscribes s1 div 2
         then sendMaxSubscribeID codec signalWriteLoop
                (s1\<lparr>maxSubscribeID := maxSubscribeID s1 + closedSubscribes s1,
                    closedSubscribes := 0\<rparr>)
         else s1)"

definition fetchComplete ::
  "(ControlFrame \<Rightarrow> bool) \<Rightarrow> SubscribeID \<Rightarrow> MoQSession \<Rightarrow> MoQSession" where
  "fetchComplete codec subscribeID s =
     (case map_of (pubTracks s) subscribeID of
        None \<Rightarrow> s
      | Some p \<Rightarrow>
          retireSubscribeId codec True (s\<lparr>pubTracks := erase subscribeID (pubTracks s)\<rparr>))"

text \<open>
  \<^verbatim>\<open>PublisherImpl::reset\<close> as the session sees it. A track publisher ignores it. A fetch
  publisher with an open stream resets the stream writer, whose \<^verbatim>\<open>onStreamComplete\<close>
  comes back through \<^verbatim>\<open>FetchPublisherImpl::onStreamComplete\<close> and
  \<^verbatim>\<open>PublisherImpl::fetchComplete\<close> to \<^const>\<open>fetchComplete\<close>.
\<close>

fun resetPublisher ::
  "(ControlFrame \<Rightarrow> bool) \<Rightarrow> SubscribeID \<times> Publisher \<Rightarrow> MoQSession \<Rightarrow> MoQSession" where
  "resetPublisher codec (subscribeID, TrackPublisherImpl alias pri ord) s = s"
| "resetPublisher codec (subscribeID, FetchPublisherImpl pri ord streamPublisher) s =
     (if streamPublisher then fetchComplete codec subscribeID s else s)"

text \<open>
  \<^verbatim>\<open>cleanup\<close> walks the entries that \<^verbatim>\<open>pubTracks_\<close> held on entry, then empties
  the maps it owns and requests cancellation. The source erases from the map while it
  iterates over it (its own comment asks whether that is safe); here every publisher
  that is reset removes its own entry, as the calls intend. The map's iteration order is
  not specified; the walk takes insertion order, and the order does not matter since
  every fetch publisher with a stream does the same thing, one retirement.
\<close>

definition cleanup :: "(ControlFrame \<Rightarrow> bool) \<Rightarrow> MoQSession \<Rightarrow> MoQSession" where
  "cleanup codec s =
     (let s1 = fold (resetPublisher codec) (pubTracks s) s
      in s1\<lparr>pubTracks := [], subTracks := [], fetches := [],
             cancellationRequested := True\<rparr>)"

definition close ::
  "(ControlFrame \<Rightarrow> bool) \<Rightarrow> SessionCloseErrorCode \<Rightarrow> MoQSession \<Rightarrow> MoQSession" where
  "close codec error s =
     (if wt s
      then let s1 = cleanup codec (s\<lparr>wt := False\<rparr>)
           in s1\<lparr>closeSessionCalls := closeSessionCalls s1 @ [error],
                  cancellationRequested := True\<rparr>
      else s)"

definition closeSessionIfSubscribeIdInvalid ::
  "(ControlFrame \<Rightarrow> bool) \<Rightarrow> SubscribeID \<Rightarrow> MoQSession \<Rightarrow> bool \<times> MoQSession" where
  "closeSessionIfSubscribeIdInvalid codec subscribeID s =
     (if maxSubscribeID s \<le> subscribeID then (True, close codec TOO_MANY_SUBSCRIBES s)
      else (False, s))"

definition subscribeError ::
  "(ControlFrame \<Rightarrow> bool) \<Rightarrow> SubscribeID \<Rightarrow> ErrorCode \<Rightarrow> string \<Rightarrow> MoQSession \<Rightarrow> MoQSession" where
  "subscribeError codec subscribeID errorCode reasonPhrase s =
     (case map_of (pubTracks s) subscribeID of
        None \<Rightarrow> s
      | Some p \<Rightarrow>
          (case writeFrame codec (SUBSCRIBE_ERROR subscribeID errorCode reasonPhrase)
                  (s\<lparr>pubTracks := erase subscribeID (pubTracks s)\<rparr>) of
             (res, s1) \<Rightarrow>
               let s2 = retireSubscribeId codec False s1
               in if \<not> res then s2 else signal s2))"

definition fetchError ::
  "(ControlFrame \<Rightarrow> bool) \<Rightarrow> SubscribeID \<Rightarrow> ErrorCode \<Rightarrow> string \<Rightarrow> MoQSession \<Rightarrow> MoQSession" where
  "fetchError codec subscribeID errorCode reasonPhrase s =
     (case writeFrame codec (FETCH_ERROR subscribeID errorCode reasonPhrase)
             (s\<lparr>pubTracks := erase subscribeID (pubTracks s)\<rparr>) of
        (False, s1) \<Rightarrow> s1
      | (True, s1) \<Rightarrow> signal s1)"

definition subscribeDone ::
  "(ControlFrame \<Rightarrow> bool) \<Rightarrow> SubscribeID \<Rightarrow> MoQSession \<Rightarrow> MoQSession" where
  "subscribeDone codec subscribeID s =
     (case map_of (pubTracks s) subscribeID of
        None \<Rightarrow> s
      | Some p \<Rightarrow>
          (case writeFrame codec (SUBSCRIBE_DONE subscribeID)
                  (s\<lparr>pubTracks := erase subscribeID (pubTracks s)\<rparr>) of
             (False, s1) \<Rightarrow> s1
           | (True, s1) \<Rightarrow> signal (retireSubscribeId codec False s1)))"

definition onSubscribe ::
  "(ControlFrame \<Rightarrow> bool) \<Rightarrow> SubscribeRequest \<Rightarrow> MoQSession \<Rightarrow> MoQSession" where
  "onSubscribe codec subscribeRequest s =
     (let subscribeID = sub_subscribeID subscribeRequest
      in case closeSessionIfSubscribeIdInvalid codec subscribeID s of
           (True, s1) \<Rightarrow> s1
         | (False, s1) \<Rightarrow>
             if map_of (pubTracks s1) subscribeID \<noteq> None
             then subscribeError codec subscribeID (Numeric 400) ''dup sub ID'' s1
             else s1\<lparr>pubTracks :=
                        emplace subscribeID
                          (TrackPublisherImpl (sub_trackAlias subscribeRequest)
                             (sub_priority subscribeRequest) (sub_groupOrder subscribeRequest))
                          (pubTracks s1),
                      controlMessages :=
                        controlMessages s1 @ [MsgSubscribeRequest subscribeRequest]\<rparr>)"

definition onFetch :: "(ControlFrame \<Rightarrow> bool) \<Rightarrow> Fetch \<Rightarrow> MoQSession \<Rightarrow> MoQSession" where
  "onFetch codec fetch s =
     (let subscribeID = fetch_subscribeID fetch
      in case closeSessionIfSubscribeIdInvalid codec subscribeID s of
           (True, s1) \<Rightarrow> s1
         | (False, s1) \<Rightarrow>
             if locationLess (fetch_end fetch) (fetch_start fetch)
             then fetchError codec subscribeID (Underlying INVALID_RANGE)
                    ''End must be after start'' s1
             else if map_of (pubTracks s1) subscribeID \<noteq> None
             then fetchError codec subscribeID (Numeric 400) ''dup sub ID'' s1
             else s1\<lparr>pubTracks :=
                        emplace subscribeID
                          (FetchPublisherImpl (fetch_priority fetch) (fetch_groupOrder fetch)
                             False)
                          (pubTracks s1),
                      controlMessages := controlMessages s1 @ [MsgFetch fetch]\<rparr>)"

text \<open>\<^verbatim>\<open>onFetchCancel\<close> resets the publisher it finds and then retires once more.\<close>

definition onFetchCancel ::
  "(ControlFrame \<Rightarrow> bool) \<Rightarrow> SubscribeID \<Rightarrow> MoQSession \<Rightarrow> MoQSession" where
  "onFetchCancel codec subscribeID s =
     (case map_of (pubTracks s) subscribeID of
        None \<Rightarrow> s
      | Some p \<Rightarrow> retireSubscribeId codec True (resetPublisher codec (subscribeID, p) s))"

subsubsection \<open>Setup handshake\<close>

text \<open>
  The numeric value of \<^verbatim>\<open>SetupKey::MAX_SUBSCRIBE_ID\<close> and \<^verbatim>\<open>kVersionDraftCurrent\<close> are
  constants of headers outside the sources: they are the parameters \<^term>\<open>maxKey\<close> and
  \<^term>\<open>kVersion\<close>. An \<^verbatim>\<open>XCHECK\<close> that fails aborts the process, which is
  \<^const>\<open>None\<close>.
\<close>

fun getMaxSubscribeIdIfPresent :: "64 word \<Rightarrow> SetupParameter list \<Rightarrow> 64 word" where
  "getMaxSubscribeIdIfPresent maxKey [] = 0"
| "getMaxSubscribeIdIfPresent maxKey (param # params) =
     (if param_key param = maxKey then param_asUint64 param
      else getMaxSubscribeIdIfPresent maxKey params)"

text \<open>\<^verbatim>\<open>MoQSession::setup\<close> up to the point where it awaits the server's answer. A failed
  write leaves the coroutine with an exception.\<close>

definition setupClient ::
  "64 word \<Rightarrow> (ControlFrame \<Rightarrow> bool) \<Rightarrow> ClientSetup \<Rightarrow> MoQSession
   \<Rightarrow> (string + MoQSession) option" where
  "setupClient maxKey codec clientSetup s =
     (if dir s \<noteq> CLIENT then None
      else
        let maxSubscribeId = getMaxSubscribeIdIfPresent maxKey (client_params clientSetup)
        in case writeFrame codec (CLIENT_SETUP clientSetup) s of
             (False, s1) \<Rightarrow> Some (Inl ''Failed to write setup'')
           | (True, s1) \<Rightarrow>
               Some (Inr (signal (s1\<lparr>maxSubscribeID := maxSubscribeId,
                                      maxConcurrentSubscribes := maxSubscribeId\<rparr>))))"

definition onServerSetup ::
  "64 word \<Rightarrow> 64 word \<Rightarrow> (ControlFrame \<Rightarrow> bool) \<Rightarrow> ServerSetup \<Rightarrow> MoQSession
   \<Rightarrow> MoQSession option" where
  "onServerSetup kVersion maxKey codec serverSetup s =
     (if dir s \<noteq> CLIENT then None
      else if selectedVersion serverSetup \<noteq> kVersion
      then Some (close codec PROTOCOL_VIOLATION s)
      else Some (s\<lparr>peerMaxSubscribeID :=
                       getMaxSubscribeIdIfPresent maxKey (server_params serverSetup)\<rparr>))"

text \<open>\<^term>\<open>serverSetupCallback\<close> is the application's \<^verbatim>\<open>ServerSetupCallback\<close>.\<close>

definition onClientSetup ::
  "64 word \<Rightarrow> 64 word \<Rightarrow> (ControlFrame \<Rightarrow> bool) \<Rightarrow> (ClientSetup \<Rightarrow> ServerSetup option)
   \<Rightarrow> ClientSetup \<Rightarrow> MoQSession \<Rightarrow> MoQSession option" where
  "onClientSetup kVersion maxKey codec serverSetupCallback clientSetup s =
     (if dir s \<noteq> SERVER then None
      else if kVersion \<notin> set (supportedVersions clientSetup)
      then Some (close codec PROTOCOL_VIOLATION s)
      else
        let s1 = s\<lparr>peerMaxSubscribeID :=
                      getMaxSubscribeIdIfPresent maxKey (client_params clientSetup)\<rparr>
        in case serverSetupCallback clientSetup of
             None \<Rightarrow> Some (close codec Close_INTERNAL_ERROR s1)
           | Some serverSetup \<Rightarrow>
               (let maxSubscribeId =
                      getMaxSubscribeIdIfPresent maxKey (server_params serverSetup)
                in (case writeFrame codec (SERVER_SETUP serverSetup) s1 of
                      (False, s2) \<Rightarrow> Some s2
                    | (True, s2) \<Rightarrow>
                        Some (signal (s2\<lparr>maxSubscribeID := maxSubscribeId,
                                           maxConcurrentSubscribes := maxSubscribeId,
                                           setupComplete := True\<rparr>)))))"

subsubsection \<open>Outbound subscribe and fetch\<close>

text \<open>
  \<^verbatim>\<open>subscribe\<close> and \<^verbatim>\<open>fetch\<close> up to the point where they await the peer's answer.
  The result is the error the coroutine returns at once, or the SubscribeID it allocated
  and now waits on. \<^term>\<open>callback\<close> says whether the consumer pointer is set.
\<close>

definition subscribe ::
  "(ControlFrame \<Rightarrow> bool) \<Rightarrow> SubscribeRequest \<Rightarrow> bool \<Rightarrow> MoQSession
   \<Rightarrow> (((SubscribeID \<times> ErrorCode \<times> string) + SubscribeID) \<times> MoQSession) option" where
  "subscribe codec sub callback s =
     (let s1 = (if nextSubscribeID s \<ge> peerMaxSubscribeID s
                then s\<lparr>warnings := warnings s @ [''Issuing subscribe that will fail'']\<rparr>
                else s);
          subID = nextSubscribeID s1;
          s2 = s1\<lparr>nextSubscribeID := nextSubscribeID s1 + 1\<rparr>;
          trackAlias = subID
      in case writeFrame codec
                (SUBSCRIBE (sub\<lparr>sub_subscribeID := subID, sub_trackAlias := trackAlias\<rparr>))
                s2 of
           (False, s3) \<Rightarrow> Some (Inl (subID, Numeric 500, ''local write failed''), s3)
         | (True, s3) \<Rightarrow>
             let s4 = signal s3
             in if map_of (subIdToTrackAlias s4) subID \<noteq> None then None
                else if map_of (subTracks s4) trackAlias \<noteq> None then None
                else Some (Inr subID,
                       s4\<lparr>subIdToTrackAlias := emplace subID trackAlias (subIdToTrackAlias s4),
                          subTracks :=
                            emplace trackAlias
                              (TrackReceiveState (sub_fullTrackName sub) subID callback)
                              (subTracks s4)\<rparr>))"

definition fetch ::
  "(ControlFrame \<Rightarrow> bool) \<Rightarrow> Fetch \<Rightarrow> bool \<Rightarrow> MoQSession
   \<Rightarrow> (((SubscribeID \<times> ErrorCode \<times> string) + SubscribeID) \<times> MoQSession) option" where
  "fetch codec f fetchCallback s =
     (let s1 = (if nextSubscribeID s \<ge> peerMaxSubscribeID s
                then s\<lparr>warnings := warnings s @ [''Issuing fetch that will fail'']\<rparr>
                else s);
          subID = nextSubscribeID s1;
          s2 = s1\<lparr>nextSubscribeID := nextSubscribeID s1 + 1\<rparr>
      in case writeFrame codec (FETCH (f\<lparr>fetch_subscribeID := subID\<rparr>)) s2 of
           (False, s3) \<Rightarrow> Some (Inl (subID, Numeric 500, ''local write failed''), s3)
         | (True, s3) \<Rightarrow>
             let s4 = signal s3
             in if map_of (fetches s4) subID \<noteq> None then None
                else Some (Inr subID,
                       s4\<lparr>fetches :=
                            emplace subID
                              (TrackReceiveState (fetch_fullTrackName f) subID fetchCallback)
                              (fetches s4)\<rparr>))"

text \<open>A session as its constructor leaves it, before the setup exchange.\<close>

definition newSession :: "Direction \<Rightarrow> MoQSession" where
  "newSession d =
     \<lparr>dir = d, wt = True, closeSessionCalls = [], cancellationRequested = False,
      setupComplete = False, pubTracks = [], subTracks = [], subIdToTrackAlias = [],
      fetches = [], controlMessages = [], controlWriteBuf = [], controlWriteSignals = 0,
      nextSubscribeID = 0, peerMaxSubscribeID = 0, maxSubscribeID = 0,
      maxConcurrentSubscribes = 0, closedSubscribes = 0, warnings = []\<rparr>"

text \<open>The control read loop hands each decoded SUBSCRIBE or FETCH to its handler.\<close>

datatype inbound = InSubscribe SubscribeRequest | InFetch Fetch

fun onInbound :: "(ControlFrame \<Rightarrow> bool) \<Rightarrow> inbound \<Rightarrow> MoQSession \<Rightarrow> MoQSession" where
  "onInbound codec (InSubscribe subscribeRequest) s = onSubscribe codec subscribeRequest s"
| "onInbound codec (InFetch f) s = onFetch codec f s"

subsection \<open>Sample inputs\<close>

text \<open>A framer that encodes every frame, two requests for the track ([a], t), and
  established server sessions with the credit windows of scenarios S4 and S5.\<close>

definition acceptAll :: "ControlFrame \<Rightarrow> bool" where
  "acceptAll frame = True"

definition sampleSubscribe :: "SubscribeID \<Rightarrow> SubscribeRequest" where
  "sampleSubscribe i =
     \<lparr>sub_subscribeID = i, sub_trackAlias = i, sub_fullTrackName = ([''a''], ''t''),
      sub_priority = 0, sub_groupOrder = OldestFirst\<rparr>"

definition sampleFetch :: "SubscribeID \<Rightarrow> Fetch" where
  "sampleFetch i =
     \<lparr>fetch_subscribeID = i, fetch_fullTrackName = ([''a''], ''t''), fetch_priority = 0,
      fetch_groupOrder = OldestFirst, fetch_start = (3, 0), fetch_end = (5, 0)\<rparr>"

definition establishedServer :: "64 word \<Rightarrow> MoQSession" where
  "establishedServer n =
     (newSession SERVER)\<lparr>setupComplete := True, maxSubscribeID := n,
                            maxConcurrentSubscribes := n, peerMaxSubscribeID := n\<rparr>"

definition sampleServerSetup :: ServerSetup where
  "sampleServerSetup = \<lparr>selectedVersion = 1, server_params = []\<rparr>"

definition sampleClientSetup :: ClientSetup where
  "sampleClientSetup = \<lparr>supportedVersions = [1], client_params = []\<rparr>"

text \<open>Scenario S4 after four of its five terminations.\<close>

definition fourRetired :: MoQSession where
  "fourRetired =
     retireSubscribeId acceptAll False
       (retireSubscribeId acceptAll False
          (retireSubscribeId acceptAll False
             (retireSubscribeId acceptAll False (establishedServer 10))))"

text \<open>An established server (window 10) that has accepted SUBSCRIBE, or FETCH, with
  id 0.\<close>

definition oneSubscribed :: MoQSession where
  "oneSubscribed = onSubscribe acceptAll (sampleSubscribe 0) (establishedServer 10)"

definition oneFetched :: MoQSession where
  "oneFetched = onFetch acceptAll (sampleFetch 0) (establishedServer 10)"

text \<open>The same server after an outbound subscribe, or fetch, for the sample track.\<close>

definition afterSubscribe :: MoQSession where
  "afterSubscribe =
     (establishedServer 10)
       \<lparr>nextSubscribeID := 1, controlWriteBuf := [SUBSCRIBE (sampleSubscribe 0)],
        controlWriteSignals := 1, subIdToTrackAlias := [(0, 0)],
        subTracks := [(0, TrackReceiveState ([''a''], ''t'') 0 True)]\<rparr>"

definition afterFetch :: MoQSession where
  "afterFetch =
     (establishedServer 10)
       \<lparr>nextSubscribeID := 1, controlWriteBuf := [FETCH (sampleFetch 0)],
        controlWriteSignals := 1,
        fetches := [(0, TrackReceiveState ([''a''], ''t'') 0 True)]\<rparr>"

text \<open>A server and a client whose own setup message carried no parameters.\<close>

definition serverAfterSetup :: MoQSession where
  "serverAfterSetup =
     (newSession SERVER)
       \<lparr>setupComplete := True, controlWriteBuf := [SERVER_SETUP sampleServerSetup],
        controlWriteSignals := 1\<rparr>"

definition clientAfterSetup :: MoQSession where
  "clientAfterSetup =
     (newSession CLIENT)
       \<lparr>controlWriteBuf := [CLIENT_SETUP sampleClientSetup], controlWriteSignals := 1\<rparr>"

subsection \<open>Vocabulary for the writer's properties\<close>

text \<open>The calls that publish an object or a status under a caller-supplied object ID:
  all of them start with \<^const>\<open>validatePublish\<close>.\<close>

datatype publish_call =
  PObject Payload bool
  | PObjectNotExists bool
  | PEndOfGroup
  | PEndOfTrackAndGroup
  | PStatus ObjectStatus bool
  | PBeginObject "64 word" Payload

fun publishCall ::
  "publish_call \<Rightarrow> 64 word \<Rightarrow> bool \<Rightarrow> StreamPublisherImpl
   \<Rightarrow> ((MoQPublishError + unit) \<times> StreamPublisherImpl) option" where
  "publishCall (PObject p fin) i wr w = object i p fin wr w"
| "publishCall (PObjectNotExists fin) i wr w = objectNotExists i fin wr w"
| "publishCall PEndOfGroup i wr w = endOfGroup i wr w"
| "publishCall PEndOfTrackAndGroup i wr w = endOfTrackAndGroup i wr w"
| "publishCall (PStatus st fin) i wr w = publishStatus i st fin wr w"
| "publishCall (PBeginObject n p) i wr w = beginObject i n p wr w"

text \<open>The object ID a call of either interface passes on, if it has one.\<close>

fun subgroupCallId :: "subgroup_call \<Rightarrow> 64 word option" where
  "subgroupCallId (SObject i p fin) = Some i"
| "subgroupCallId (SObjectNotExists i fin) = Some i"
| "subgroupCallId (SBeginObject i n p) = Some i"
| "subgroupCallId (SObjectPayload p fin) = None"
| "subgroupCallId (SEndOfGroup i) = Some i"
| "subgroupCallId (SEndOfTrackAndGroup i) = Some i"
| "subgroupCallId SEndOfSubgroup = None"
| "subgroupCallId (SReset e) = None"

fun fetchCallId :: "fetch_call \<Rightarrow> 64 word option" where
  "fetchCallId (FObject g sg i p fin) = Some i"
| "fetchCallId (FObjectNotExists g sg i fin) = Some i"
| "fetchCallId (FGroupNotExists g sg fin) = Some 0"
| "fetchCallId (FBeginObject g sg i n p) = Some i"
| "fetchCallId (FObjectPayload p fin) = None"
| "fetchCallId (FEndOfGroup g sg i fin) = Some i"
| "fetchCallId (FEndOfTrackAndGroup g sg i) = Some i"
| "fetchCallId FEndOfFetch = None"
| "fetchCallId (FReset e) = None"

text \<open>No object waits in \<^verbatim>\<open>writeBuf_\<close>: between calls it holds at most the stream
  header.\<close>

definition noPending :: "StreamPublisherImpl \<Rightarrow> bool" where
  "noPending w = list_all (\<lambda>x. wireObjects x = []) (writeBuf w)"

text \<open>
  What one call can do to the log of written objects: nothing, or append the header it
  leaves in \<^verbatim>\<open>header_\<close>, whose id it has set to \<^term>\<open>i\<close>, after the id check passed.
\<close>

definition unchanged :: "StreamPublisherImpl \<Rightarrow> StreamPublisherImpl \<Rightarrow> bool" where
  "unchanged w w' =
     (noPending w' \<and> objectsWritten w' = objectsWritten w \<and> header w' = header w)"

definition appended :: "64 word \<Rightarrow> StreamPublisherImpl \<Rightarrow> StreamPublisherImpl \<Rightarrow> bool" where
  "appended i w w' =
     (noPending w' \<and> hdr_group (header w') = hdr_group (header w)
      \<and> hdr_subgroup (header w') = hdr_subgroup (header w)
      \<and> ((objectsWritten w' = objectsWritten w \<and> hdr_id (header w') = hdr_id (header w))
         \<or> (objectsWritten w' = objectsWritten w @ [header w'] \<and> hdr_id (header w') = i
            \<and> (hdr_id (header w) = uint64_max \<or> hdr_id (header w) < i))))"

text \<open>The strict lexicographic order on (group, id).\<close>

definition pairOf :: "ObjectHeader \<Rightarrow> 64 word \<times> 64 word" where
  "pairOf h = (hdr_group h, hdr_id h)"

fun pairLess :: "64 word \<times> 64 word \<Rightarrow> 64 word \<times> 64 word \<Rightarrow> bool" where
  "pairLess (g, i) (g', i') = (g < g' \<or> (g = g' \<and> i < i'))"

text \<open>
  The invariants of a writer's log. \<^term>\<open>idsAdvance w\<close>: the (group, id) pairs written
  increase strictly, and none is beyond the pair in \<^verbatim>\<open>header_\<close>.
  \<^term>\<open>groupsAdvance w\<close>: the groups written never decrease and none is beyond the
  group in \<^verbatim>\<open>header_\<close>. \<^term>\<open>oneGroup w\<close>: every object written carries the group in
  \<^verbatim>\<open>header_\<close>.
\<close>

definition idsAdvance :: "StreamPublisherImpl \<Rightarrow> bool" where
  "idsAdvance w =
     (noPending w \<and> sorted_wrt pairLess (map pairOf (objectsWritten w)) \<and>
      (\<forall>h\<in>set (objectsWritten w).
         hdr_group h < hdr_group (header w) \<or>
         (hdr_group h = hdr_group (header w) \<and> hdr_id h \<le> hdr_id (header w)
          \<and> hdr_id (header w) \<noteq> uint64_max)))"

definition groupsAdvance :: "StreamPublisherImpl \<Rightarrow> bool" where
  "groupsAdvance w =
     (noPending w \<and> sorted (map hdr_group (objectsWritten w)) \<and>
      (\<forall>h\<in>set (objectsWritten w). hdr_group h \<le> hdr_group (header w)))"

definition oneGroup :: "StreamPublisherImpl \<Rightarrow> bool" where
  "oneGroup w = list_all (\<lambda>h. hdr_group h = hdr_group (header w)) (objectsWritten w)"

text \<open>
  The number of bytes of a payload, and a run of \<^verbatim>\<open>objectPayload\<close> calls without
  \<^verbatim>\<open>finStream\<close> on a transport that takes every write: the statuses returned, or
  \<^const>\<open>None\<close> as soon as a call does not return a status.
\<close>

definition payloadSize :: "Payload \<Rightarrow> nat" where
  "payloadSize payload = (case payload of None \<Rightarrow> 0 | Some bs \<Rightarrow> length bs)"

fun objectPayloads ::
  "Payload list \<Rightarrow> StreamPublisherImpl
   \<Rightarrow> (ObjectPublishStatus list \<times> StreamPublisherImpl) option" where
  "objectPayloads [] w = Some ([], w)"
| "objectPayloads (p # ps) w =
     (case objectPayload p False True w of
        Some (Inr st, w1) \<Rightarrow>
          (case objectPayloads ps w1 of
             Some (sts, w2) \<Rightarrow> Some (st # sts, w2)
           | None \<Rightarrow> None)
      | _ \<Rightarrow> None)"

text \<open>Sample writers: the subgroup stream (group 7, subgroup 0) of scenario S2 and a
  fetch stream, after a list of calls; and payloads of one to four bytes.\<close>

definition subgroupAfter :: "(subgroup_call \<times> bool) list \<Rightarrow> StreamPublisherImpl" where
  "subgroupAfter cs =
     (case subgroupRun cs (newSubgroupStream 0 0 7 0) of
        Some w \<Rightarrow> w
      | None \<Rightarrow> newSubgroupStream 0 0 7 0)"

definition fetchAfter :: "(fetch_call \<times> bool) list \<Rightarrow> StreamPublisherImpl" where
  "fetchAfter cs =
     (case fetchRun cs (newFetchStream 0) of Some w \<Rightarrow> w | None \<Rightarrow> newFetchStream 0)"

definition abc :: Payload where
  "abc = Some [97, 98, 99]"

definition ab :: Payload where
  "ab = Some [97, 98]"

definition c1 :: Payload where
  "c1 = Some [99]"

definition de :: Payload where
  "de = Some [100, 101]"

definition abcd :: Payload where
  "abcd = Some [97, 98, 99, 100]"

section \<open>Properties\<close>

subsection \<open>Priority encoder\<close>

text \<open>
  Scenario S2 of the specification: group 7, subgroup 0, publisher priority 128, oldest
  first. The group fits the low 11 bits, so the encoder returns the documented value.
\<close>

lemma getStreamPriority_scenario_S2:
  "getStreamPriority 7 0 subPri 128 OldestFirst =
     push_bit 50 (ucast subPri) OR push_bit 42 128 OR push_bit 21 7 OR 0"
  by (simp add: getStreamPriority_def groupPriorityBits_def subgroupPriorityBits_def IdMask_def)

text \<open>
  Where the encoder and the documented layout agree: the 32-bit group and subgroup bits
  are the 64-bit ones, and the shift of the group bits loses nothing as long as they
  fit in 11 bits.
\<close>

lemma IdMask_32_mask: "(0x1FFFFF :: 32 word) = mask 21"
  by (simp add: mask_eq_exp_minus_1)

lemma IdMask_64_mask: "(0x1FFFFF :: 64 word) = mask 21"
  by (simp add: mask_eq_exp_minus_1)

lemma low_bits_narrowed:
  "(ucast ((ucast (x :: 64 word) :: 32 word) AND 0x1FFFFF) :: 64 word) = x AND 0x1FFFFF"
  unfolding IdMask_32_mask IdMask_64_mask
  by (rule bit_word_eqI) (auto simp add: bit_simps)

lemma shift_32_small:
  assumes "gb < 2 ^ 11"
  shows "(ucast (push_bit 21 (gb :: 32 word) :: 32 word) :: 64 word) = push_bit 21 (ucast gb)"
proof -
  from assms have e: "gb AND mask 11 = gb" by (rule less_mask_eq)
  have "(ucast (push_bit 21 (gb AND mask 11) :: 32 word) :: 64 word) =
          push_bit 21 (ucast (gb AND mask 11))"
    by (rule bit_word_eqI) (auto simp add: bit_simps)
  with e show ?thesis by simp
qed

lemma reversed_bits_widened:
  assumes "t \<le> (0x1FFFFF :: 32 word)"
  shows "(ucast (0x1FFFFF - t) :: 64 word) = 0x1FFFFF - ucast t"
proof -
  have u: "unat (ucast t :: 64 word) = unat t"
    by (simp add: unsigned_ucast_eq take_bit_nat_eq_self
        order_less_le_trans [OF unsigned_less])
  have le: "(ucast t :: 64 word) \<le> 0x1FFFFF"
    using assms u by (simp add: word_le_nat_alt)
  have "unat (ucast (0x1FFFFF - t) :: 64 word) = unat (0x1FFFFF - t)"
    by (simp add: unsigned_ucast_eq take_bit_nat_eq_self
        order_less_le_trans [OF unsigned_less])
  also have "\<dots> = unat (0x1FFFFF :: 32 word) - unat t"
    using assms by (rule unat_sub)
  also have "\<dots> = unat (0x1FFFFF :: 64 word) - unat (ucast t :: 64 word)"
    using u by simp
  also have "\<dots> = unat ((0x1FFFFF :: 64 word) - ucast t)"
    using le by (simp add: unat_sub)
  finally show ?thesis by (simp add: word_unat_eq_iff)
qed

lemma groupPriorityBits_spec:
  "(ucast (groupPriorityBits ord g) :: 64 word) = specGroupBits ord g"
proof (cases ord)
  case OldestFirst
  then show ?thesis
    by (simp add: groupPriorityBits_def specGroupBits_def IdMask_def low_bits_narrowed)
next
  case NewestFirst
  have "(ucast g :: 32 word) AND 0x1FFFFF \<le> 0x1FFFFF" by (rule word_and_le1)
  from reversed_bits_widened [OF this] NewestFirst show ?thesis
    by (simp add: groupPriorityBits_def specGroupBits_def IdMask_def low_bits_narrowed)
qed

lemma getStreamPriority_small_group:
  assumes "groupPriorityBits ord g < 2 ^ 11"
  shows "getStreamPriority g sg subPri pubPri ord = specPriority g sg subPri pubPri ord"
  using shift_32_small [OF assms]
  by (simp add: getStreamPriority_def specPriority_def subgroupPriorityBits_def IdMask_def
      low_bits_narrowed groupPriorityBits_spec)

text \<open>
  Claim C1: for every input the encoder returns
  \<open>(subPri << 50) | (pubPri << 42) | (groupBits << 21) | subgroupBits\<close> with 21 group
  bits. The code shifts \<^verbatim>\<open>groupBits\<close> as a 32-bit value, so only its low 11 bits reach
  the result: for group 2048, oldest first, it returns 0 where the layout gives
  \<open>2048 << 21 = 2^32\<close>, and for group 0, newest first, it returns \<open>0xFFE00000\<close> where
  the layout gives \<open>(2^21 - 1) << 21\<close>.
\<close>

theorem getStreamPriority_group_bits_truncated:
  "getStreamPriority 2048 0 0 0 OldestFirst = 0
   \<and> specPriority 2048 0 0 0 OldestFirst = 0x100000000
   \<and> getStreamPriority 0 0 0 0 NewestFirst = 0xFFE00000
   \<and> specPriority 0 0 0 0 NewestFirst = 0x3FFFFE00000"
  by (simp add: getStreamPriority_def groupPriorityBits_def subgroupPriorityBits_def IdMask_def
      specPriority_def specGroupBits_def)

subsection \<open>What the session handlers leave unchanged\<close>

lemma sendMaxSubscribeID_frame:
  "controlMessages (sendMaxSubscribeID codec b s) = controlMessages s"
  "wt (sendMaxSubscribeID codec b s) = wt s"
  "closeSessionCalls (sendMaxSubscribeID codec b s) = closeSessionCalls s"
  "pubTracks (sendMaxSubscribeID codec b s) = pubTracks s"
  "maxSubscribeID (sendMaxSubscribeID codec b s) = maxSubscribeID s"
  "closedSubscribes (sendMaxSubscribeID codec b s) = closedSubscribes s"
  "maxConcurrentSubscribes (sendMaxSubscribeID codec b s) = maxConcurrentSubscribes s"
  by (simp_all add: sendMaxSubscribeID_def writeFrame_def signal_def)

lemma retireSubscribeId_frame:
  "controlMessages (retireSubscribeId codec b s) = controlMessages s"
  "wt (retireSubscribeId codec b s) = wt s"
  "closeSessionCalls (retireSubscribeId codec b s) = closeSessionCalls s"
  "pubTracks (retireSubscribeId codec b s) = pubTracks s"
  "maxConcurrentSubscribes (retireSubscribeId codec b s) = maxConcurrentSubscribes s"
  by (simp_all add: retireSubscribeId_def Let_def sendMaxSubscribeID_frame)

lemma fetchComplete_frame:
  "controlMessages (fetchComplete codec i s) = controlMessages s"
  "wt (fetchComplete codec i s) = wt s"
  "closeSessionCalls (fetchComplete codec i s) = closeSessionCalls s"
  by (simp_all add: fetchComplete_def retireSubscribeId_frame split: option.split)

lemma resetPublisher_frame:
  "controlMessages (resetPublisher codec e s) = controlMessages s"
  "wt (resetPublisher codec e s) = wt s"
  "closeSessionCalls (resetPublisher codec e s) = closeSessionCalls s"
  by (cases e; cases "snd e"; simp add: fetchComplete_frame)+

lemma fold_resetPublisher_frame:
  "controlMessages (fold (resetPublisher codec) ps s) = controlMessages s \<and>
   wt (fold (resetPublisher codec) ps s) = wt s \<and>
   closeSessionCalls (fold (resetPublisher codec) ps s) = closeSessionCalls s"
  by (induction ps arbitrary: s) (simp_all add: resetPublisher_frame)

lemma cleanup_frame:
  "controlMessages (cleanup codec s) = controlMessages s"
  "wt (cleanup codec s) = wt s"
  "closeSessionCalls (cleanup codec s) = closeSessionCalls s"
  "pubTracks (cleanup codec s) = []"
  by (simp_all add: cleanup_def Let_def fold_resetPublisher_frame)

text \<open>\<^verbatim>\<open>close\<close> acts once: on a session whose transport is already detached it does
  nothing.\<close>

lemma close_frame:
  "controlMessages (close codec e s) = controlMessages s"
  "wt (close codec e s) = False"
  "closeSessionCalls (close codec e s) =
     (if wt s then closeSessionCalls s @ [e] else closeSessionCalls s)"
  "pubTracks (close codec e s) = (if wt s then [] else pubTracks s)"
  by (simp_all add: close_def Let_def cleanup_frame)

lemma close_no_publishers:
  "pubTracks s = [] \<Longrightarrow> maxSubscribeID (close codec e s) = maxSubscribeID s"
  by (simp add: close_def cleanup_def Let_def)

lemma subscribeError_frame:
  "controlMessages (subscribeError codec i c rp s) = controlMessages s"
  "wt (subscribeError codec i c rp s) = wt s"
  "closeSessionCalls (subscribeError codec i c rp s) = closeSessionCalls s"
  by (simp_all add: subscribeError_def writeFrame_def signal_def Let_def
      retireSubscribeId_frame split: option.split)

text \<open>\<^verbatim>\<open>fetchError\<close> drops the publisher and writes the frame; the retirement counter
  and the advertised maximum are not touched.\<close>

lemma fetchError_frame:
  "controlMessages (fetchError codec i c rp s) = controlMessages s"
  "wt (fetchError codec i c rp s) = wt s"
  "closeSessionCalls (fetchError codec i c rp s) = closeSessionCalls s"
  "closedSubscribes (fetchError codec i c rp s) = closedSubscribes s"
  "maxSubscribeID (fetchError codec i c rp s) = maxSubscribeID s"
  "pubTracks (fetchError codec i c rp s) = erase i (pubTracks s)"
  by (simp_all add: fetchError_def writeFrame_def signal_def)

lemma subscribeError_buf:
  "map_of (pubTracks s) i \<noteq> None \<Longrightarrow> codec (SUBSCRIBE_ERROR i c rp) \<Longrightarrow>
   \<exists>rest. controlWriteBuf (subscribeError codec i c rp s) =
            controlWriteBuf s @ SUBSCRIBE_ERROR i c rp # rest"
  by (auto simp add: subscribeError_def writeFrame_def signal_def retireSubscribeId_def
      sendMaxSubscribeID_def Let_def)

lemma fetchError_buf:
  "codec (FETCH_ERROR i c rp) \<Longrightarrow>
   controlWriteBuf (fetchError codec i c rp s) = controlWriteBuf s @ [FETCH_ERROR i c rp]"
  by (simp add: fetchError_def writeFrame_def signal_def)

subsection \<open>Inbound SubscribeID bound\<close>

text \<open>
  Claim C2: an inbound SUBSCRIBE or FETCH whose subscribeID is at least the current
  \<^verbatim>\<open>maxSubscribeID_\<close> closes the session with TOO_MANY_SUBSCRIBES (the session being
  open, that is the transport still attached), creates no publisher entry and queues
  nothing for the application; and a request that is queued for the application had
  \<open>id < maxSubscribeID\<close> when it was received.
\<close>

theorem inbound_subscribeID_bound:
  "(maxSubscribeID s \<le> sub_subscribeID req \<longrightarrow>
      (wt s \<longrightarrow>
         closeSessionCalls (onSubscribe codec req s) =
           closeSessionCalls s @ [TOO_MANY_SUBSCRIBES]
         \<and> \<not> wt (onSubscribe codec req s))
      \<and> set (pubTracks (onSubscribe codec req s)) \<subseteq> set (pubTracks s)
      \<and> controlMessages (onSubscribe codec req s) = controlMessages s)
   \<and> (maxSubscribeID s \<le> fetch_subscribeID f \<longrightarrow>
      (wt s \<longrightarrow>
         closeSessionCalls (onFetch codec f s) = closeSessionCalls s @ [TOO_MANY_SUBSCRIBES]
         \<and> \<not> wt (onFetch codec f s))
      \<and> set (pubTracks (onFetch codec f s)) \<subseteq> set (pubTracks s)
      \<and> controlMessages (onFetch codec f s) = controlMessages s)
   \<and> (controlMessages (onSubscribe codec req s) \<noteq> controlMessages s \<longrightarrow>
        sub_subscribeID req < maxSubscribeID s)
   \<and> (controlMessages (onFetch codec f s) \<noteq> controlMessages s \<longrightarrow>
        fetch_subscribeID f < maxSubscribeID s)"
  by (auto simp add: onSubscribe_def onFetch_def closeSessionIfSubscribeIdInvalid_def Let_def
      close_frame subscribeError_frame fetchError_frame)

text \<open>Scenario S5: the window is 4 and the peer sends SUBSCRIBE (or FETCH) with id 4;
  with id 3 the request is queued.\<close>

theorem inbound_subscribeID_bound_witness:
  "maxSubscribeID (establishedServer 4) \<le> sub_subscribeID (sampleSubscribe 4)
   \<and> maxSubscribeID (establishedServer 4) \<le> fetch_subscribeID (sampleFetch 4)
   \<and> wt (establishedServer 4)
   \<and> closeSessionCalls (onSubscribe acceptAll (sampleSubscribe 4) (establishedServer 4)) =
       [TOO_MANY_SUBSCRIBES]
   \<and> closeSessionCalls (onFetch acceptAll (sampleFetch 4) (establishedServer 4)) =
       [TOO_MANY_SUBSCRIBES]
   \<and> controlMessages (onSubscribe acceptAll (sampleSubscribe 4) (establishedServer 4)) = []
   \<and> controlMessages (onSubscribe acceptAll (sampleSubscribe 3) (establishedServer 4)) \<noteq>
       controlMessages (establishedServer 4)
   \<and> controlMessages (onFetch acceptAll (sampleFetch 3) (establishedServer 4)) \<noteq>
       controlMessages (establishedServer 4)
   \<and> sub_subscribeID (sampleSubscribe 3) < maxSubscribeID (establishedServer 4)"
  using inbound_subscribeID_bound
          [where s = "establishedServer 4" and req = "sampleSubscribe 4"
             and f = "sampleFetch 4" and codec = acceptAll]
        inbound_subscribeID_bound
          [where s = "establishedServer 4" and req = "sampleSubscribe 3"
             and f = "sampleFetch 3" and codec = acceptAll]
  by (simp add: onSubscribe_def onFetch_def closeSessionIfSubscribeIdInvalid_def Let_def
      establishedServer_def newSession_def sampleSubscribe_def sampleFetch_def emplace_def
      locationLess_def word_le_nat_alt word_less_nat_alt)

subsection \<open>Credit retirement\<close>

lemma retireSubscribeId_below:
  "\<not> maxConcurrentSubscribes s div 2 \<le> closedSubscribes s + 1 \<Longrightarrow>
   retireSubscribeId codec b s = s\<lparr>closedSubscribes := closedSubscribes s + 1\<rparr>"
  by (simp add: retireSubscribeId_def Let_def)

lemma fourRetired_eq: "fourRetired = (establishedServer 10)\<lparr>closedSubscribes := 4\<rparr>"
  by (simp add: fourRetired_def retireSubscribeId_def Let_def establishedServer_def
      newSession_def word_le_nat_alt unat_div)

text \<open>
  Claim C3: when a retirement brings \<^verbatim>\<open>closedSubscribes_\<close> (the counter after its
  increment) to at least \<^verbatim>\<open>maxConcurrentSubscribes_ / 2\<close>, the session writes a
  MAX_SUBSCRIBE_ID frame whose value is the previous \<^verbatim>\<open>maxSubscribeID_\<close> plus that
  counter, and the counter returns to 0. The frame is written when the framer encodes it.
\<close>

theorem retireSubscribeId_issues_max:
  "maxConcurrentSubscribes s div 2 \<le> closedSubscribes s + 1 \<and>
   codec (MAX_SUBSCRIBE_ID (maxSubscribeID s + (closedSubscribes s + 1))) \<longrightarrow>
     controlWriteBuf (retireSubscribeId codec signalWriteLoop s) =
       controlWriteBuf s @ [MAX_SUBSCRIBE_ID (maxSubscribeID s + (closedSubscribes s + 1))]
     \<and> maxSubscribeID (retireSubscribeId codec signalWriteLoop s) =
         maxSubscribeID s + (closedSubscribes s + 1)
     \<and> closedSubscribes (retireSubscribeId codec signalWriteLoop s) = 0"
  by (simp add: retireSubscribeId_def sendMaxSubscribeID_def writeFrame_def signal_def Let_def)

text \<open>Scenario S4: window 10, maximum 10. Four retirements only count; the fifth writes
  MAX_SUBSCRIBE_ID 15 and resets the counter.\<close>

theorem retireSubscribeId_issues_max_witness:
  "closedSubscribes fourRetired = 4
   \<and> controlWriteBuf fourRetired = []
   \<and> maxConcurrentSubscribes fourRetired div 2 \<le> closedSubscribes fourRetired + 1
   \<and> controlWriteBuf (retireSubscribeId acceptAll False fourRetired) = [MAX_SUBSCRIBE_ID 15]
   \<and> maxSubscribeID (retireSubscribeId acceptAll False fourRetired) = 15
   \<and> closedSubscribes (retireSubscribeId acceptAll False fourRetired) = 0"
  using retireSubscribeId_issues_max [of fourRetired acceptAll False]
  by (simp add: fourRetired_eq acceptAll_def establishedServer_def newSession_def
      word_le_nat_alt unat_div)

text \<open>
  Claim C7: every local completion of a subscribe or fetch increments
  \<^verbatim>\<open>closedSubscribes_\<close>, a local FETCH_ERROR included. On an established server with
  window 10, an accepted FETCH with id 0 answered by \<^verbatim>\<open>fetchError\<close> loses its publisher
  entry and leaves the counter at 0, while an accepted SUBSCRIBE with id 0 answered by
  \<^verbatim>\<open>subscribeError\<close> brings it to 1.
\<close>

theorem fetchError_leaves_closedSubscribes:
  "pubTracks (onFetch acceptAll (sampleFetch 0) (establishedServer 10)) =
     [(0, FetchPublisherImpl 0 OldestFirst False)]
   \<and> pubTracks (fetchError acceptAll 0 (Underlying Fetch_INTERNAL_ERROR) []
        (onFetch acceptAll (sampleFetch 0) (establishedServer 10))) = []
   \<and> controlWriteBuf (fetchError acceptAll 0 (Underlying Fetch_INTERNAL_ERROR) []
        (onFetch acceptAll (sampleFetch 0) (establishedServer 10))) =
       [FETCH_ERROR 0 (Underlying Fetch_INTERNAL_ERROR) []]
   \<and> closedSubscribes (fetchError acceptAll 0 (Underlying Fetch_INTERNAL_ERROR) []
        (onFetch acceptAll (sampleFetch 0) (establishedServer 10))) = 0
   \<and> closedSubscribes (subscribeError acceptAll 0 (Numeric 500) []
        (onSubscribe acceptAll (sampleSubscribe 0) (establishedServer 10))) = 1"
  by (simp add: fetchError_def onFetch_def onSubscribe_def subscribeError_def
      closeSessionIfSubscribeIdInvalid_def writeFrame_def signal_def acceptAll_def
      sampleFetch_def sampleSubscribe_def establishedServer_def newSession_def emplace_def
      erase_def locationLess_def retireSubscribeId_def Let_def word_le_nat_alt
      word_less_nat_alt unat_div)

subsection \<open>Duplicate inbound SubscribeID\<close>

text \<open>
  Claim C8, as stated: a SUBSCRIBE whose subscribeID is already in the publisher map
  closes the session. On an established server with window 10, SUBSCRIBE with id 0 sent
  twice leaves the transport attached and \<^verbatim>\<open>closeSession\<close> uncalled.
\<close>

theorem duplicate_subscribe_keeps_session_open:
  "map_of (pubTracks (onSubscribe acceptAll (sampleSubscribe 0) (establishedServer 10))) 0 \<noteq>
     None
   \<and> closeSessionCalls (onSubscribe acceptAll (sampleSubscribe 0)
        (onSubscribe acceptAll (sampleSubscribe 0) (establishedServer 10))) = []
   \<and> wt (onSubscribe acceptAll (sampleSubscribe 0)
        (onSubscribe acceptAll (sampleSubscribe 0) (establishedServer 10)))"
  by (simp add: onSubscribe_def subscribeError_def closeSessionIfSubscribeIdInvalid_def
      writeFrame_def signal_def acceptAll_def sampleSubscribe_def establishedServer_def
      newSession_def emplace_def erase_def retireSubscribeId_def Let_def word_le_nat_alt
      word_less_nat_alt unat_div)

text \<open>
  Claim C8, amended: a SUBSCRIBE (or a FETCH with a valid range) whose subscribeID is
  below \<^verbatim>\<open>maxSubscribeID_\<close> and already in the publisher map does not close the session
  and is not queued for the application; the session answers SUBSCRIBE_ERROR (or
  FETCH_ERROR) with code 400 and reason "dup sub ID", when the framer encodes it.
\<close>

theorem duplicate_subscribeID_rejected:
  "(sub_subscribeID req < maxSubscribeID s
      \<and> map_of (pubTracks s) (sub_subscribeID req) \<noteq> None \<longrightarrow>
      closeSessionCalls (onSubscribe codec req s) = closeSessionCalls s
      \<and> wt (onSubscribe codec req s) = wt s
      \<and> controlMessages (onSubscribe codec req s) = controlMessages s
      \<and> (codec (SUBSCRIBE_ERROR (sub_subscribeID req) (Numeric 400) ''dup sub ID'') \<longrightarrow>
           (\<exists>rest. controlWriteBuf (onSubscribe codec req s) =
              controlWriteBuf s
              @ SUBSCRIBE_ERROR (sub_subscribeID req) (Numeric 400) ''dup sub ID'' # rest)))
   \<and> (fetch_subscribeID f < maxSubscribeID s
       \<and> map_of (pubTracks s) (fetch_subscribeID f) \<noteq> None
       \<and> \<not> locationLess (fetch_end f) (fetch_start f) \<longrightarrow>
      closeSessionCalls (onFetch codec f s) = closeSessionCalls s
      \<and> wt (onFetch codec f s) = wt s
      \<and> controlMessages (onFetch codec f s) = controlMessages s
      \<and> (codec (FETCH_ERROR (fetch_subscribeID f) (Numeric 400) ''dup sub ID'') \<longrightarrow>
           controlWriteBuf (onFetch codec f s) =
              controlWriteBuf s
              @ [FETCH_ERROR (fetch_subscribeID f) (Numeric 400) ''dup sub ID'']))"
  by (auto simp add: onSubscribe_def onFetch_def closeSessionIfSubscribeIdInvalid_def Let_def
      subscribeError_frame fetchError_frame subscribeError_buf fetchError_buf)

lemma oneSubscribed_eq:
  "oneSubscribed =
     (establishedServer 10)
       \<lparr>pubTracks := [(0, TrackPublisherImpl 0 0 OldestFirst)],
        controlMessages := [MsgSubscribeRequest (sampleSubscribe 0)]\<rparr>"
  by (simp add: oneSubscribed_def onSubscribe_def closeSessionIfSubscribeIdInvalid_def
      establishedServer_def newSession_def sampleSubscribe_def emplace_def Let_def
      word_le_nat_alt)

lemma oneFetched_eq:
  "oneFetched =
     (establishedServer 10)
       \<lparr>pubTracks := [(0, FetchPublisherImpl 0 OldestFirst False)],
        controlMessages := [MsgFetch (sampleFetch 0)]\<rparr>"
  by (simp add: oneFetched_def onFetch_def closeSessionIfSubscribeIdInvalid_def
      establishedServer_def newSession_def sampleFetch_def emplace_def locationLess_def Let_def
      word_le_nat_alt word_less_nat_alt)

theorem duplicate_subscribeID_rejected_witness:
  "sub_subscribeID (sampleSubscribe 0) < maxSubscribeID oneSubscribed
   \<and> map_of (pubTracks oneSubscribed) (sub_subscribeID (sampleSubscribe 0)) \<noteq> None
   \<and> fetch_subscribeID (sampleFetch 0) < maxSubscribeID oneFetched
   \<and> map_of (pubTracks oneFetched) (fetch_subscribeID (sampleFetch 0)) \<noteq> None
   \<and> \<not> locationLess (fetch_end (sampleFetch 0)) (fetch_start (sampleFetch 0))
   \<and> closeSessionCalls (onSubscribe acceptAll (sampleSubscribe 0) oneSubscribed) = []
   \<and> wt (onSubscribe acceptAll (sampleSubscribe 0) oneSubscribed)
   \<and> controlMessages (onSubscribe acceptAll (sampleSubscribe 0) oneSubscribed) =
       [MsgSubscribeRequest (sampleSubscribe 0)]
   \<and> controlWriteBuf (onSubscribe acceptAll (sampleSubscribe 0) oneSubscribed) =
       [SUBSCRIBE_ERROR 0 (Numeric 400) ''dup sub ID'']
   \<and> closeSessionCalls (onFetch acceptAll (sampleFetch 0) oneFetched) = []
   \<and> wt (onFetch acceptAll (sampleFetch 0) oneFetched)
   \<and> controlMessages (onFetch acceptAll (sampleFetch 0) oneFetched) =
       [MsgFetch (sampleFetch 0)]
   \<and> controlWriteBuf (onFetch acceptAll (sampleFetch 0) oneFetched) =
       [FETCH_ERROR 0 (Numeric 400) ''dup sub ID'']"
  using duplicate_subscribeID_rejected
          [where s = oneSubscribed and req = "sampleSubscribe 0" and codec = acceptAll
             and f = "sampleFetch 10"]
        duplicate_subscribeID_rejected
          [where s = oneFetched and req = "sampleSubscribe 10" and codec = acceptAll
             and f = "sampleFetch 0"]
  by (simp add: oneSubscribed_eq oneFetched_eq onSubscribe_def onFetch_def
      subscribeError_def fetchError_def closeSessionIfSubscribeIdInvalid_def writeFrame_def
      signal_def retireSubscribeId_def acceptAll_def establishedServer_def newSession_def
      sampleSubscribe_def sampleFetch_def erase_def locationLess_def Let_def
      word_le_nat_alt word_less_nat_alt unat_div)

subsection \<open>Outbound SubscribeID allocation\<close>

text \<open>
  Claim C9, as stated: every SubscribeID allocated for an outbound subscribe or fetch is
  below \<^verbatim>\<open>peerMaxSubscribeID_\<close>. A client that has not yet learnt the peer's maximum
  (it is 0) allocates and sends id 0.
\<close>

theorem subscribe_beyond_peer_maximum:
  "map_option fst (subscribe acceptAll (sampleSubscribe 0) True (newSession CLIENT)) =
     Some (Inr 0)
   \<and> map_option (controlWriteBuf \<circ> snd)
        (subscribe acceptAll (sampleSubscribe 0) True (newSession CLIENT)) =
       Some [SUBSCRIBE (sampleSubscribe 0)]
   \<and> peerMaxSubscribeID (newSession CLIENT) = 0"
  by (simp add: subscribe_def writeFrame_def signal_def acceptAll_def newSession_def
      sampleSubscribe_def emplace_def Let_def word_le_nat_alt word_less_nat_alt)

text \<open>
  Claim C9, amended: the SubscribeID allocated for an outbound subscribe or fetch is the
  value of \<^verbatim>\<open>nextSubscribeID_\<close> at the call, whatever \<^verbatim>\<open>peerMaxSubscribeID_\<close> is, and the
  counter advances by one; when that value is not below \<^verbatim>\<open>peerMaxSubscribeID_\<close> the
  session logs a warning and goes on. So the allocated id is below the peer's maximum
  exactly when \<^verbatim>\<open>nextSubscribeID_\<close> was. In either case the request is sent: when the
  framer encodes the SUBSCRIBE or FETCH frame carrying that id, the frame is appended to
  the control buffer, the write loop is signalled and the call waits for the answer
  under that id; when the framer fails, the call returns the error 500 "local write
  failed" for that id and nothing is appended.
\<close>

theorem outbound_id_is_next:
  "(subscribe codec sub callback s = Some (res, s') \<longrightarrow>
      (res = Inr (nextSubscribeID s) \<or> (\<exists>e. res = Inl (nextSubscribeID s, e)))
      \<and> nextSubscribeID s' = nextSubscribeID s + 1
      \<and> warnings s' =
          (if peerMaxSubscribeID s \<le> nextSubscribeID s
           then warnings s @ [''Issuing subscribe that will fail''] else warnings s)
      \<and> (if codec (SUBSCRIBE (sub\<lparr>sub_subscribeID := nextSubscribeID s,
                                     sub_trackAlias := nextSubscribeID s\<rparr>))
         then res = Inr (nextSubscribeID s)
              \<and> controlWriteBuf s' =
                  controlWriteBuf s
                  @ [SUBSCRIBE (sub\<lparr>sub_subscribeID := nextSubscribeID s,
                                     sub_trackAlias := nextSubscribeID s\<rparr>)]
         else res = Inl (nextSubscribeID s, Numeric 500, ''local write failed'')
              \<and> controlWriteBuf s' = controlWriteBuf s))
   \<and> (fetch codec f fetchCallback s = Some (res, s') \<longrightarrow>
      (res = Inr (nextSubscribeID s) \<or> (\<exists>e. res = Inl (nextSubscribeID s, e)))
      \<and> nextSubscribeID s' = nextSubscribeID s + 1
      \<and> warnings s' =
          (if peerMaxSubscribeID s \<le> nextSubscribeID s
           then warnings s @ [''Issuing fetch that will fail''] else warnings s)
      \<and> (if codec (FETCH (f\<lparr>fetch_subscribeID := nextSubscribeID s\<rparr>))
         then res = Inr (nextSubscribeID s)
              \<and> controlWriteBuf s' =
                  controlWriteBuf s @ [FETCH (f\<lparr>fetch_subscribeID := nextSubscribeID s\<rparr>)]
         else res = Inl (nextSubscribeID s, Numeric 500, ''local write failed'')
              \<and> controlWriteBuf s' = controlWriteBuf s))
   \<and> (codec (SUBSCRIBE (sub\<lparr>sub_subscribeID := nextSubscribeID s,
                               sub_trackAlias := nextSubscribeID s\<rparr>))
       \<and> map_of (subIdToTrackAlias s) (nextSubscribeID s) = None
       \<and> map_of (subTracks s) (nextSubscribeID s) = None \<longrightarrow>
       (\<exists>s2. subscribe codec sub callback s = Some (Inr (nextSubscribeID s), s2)
            \<and> controlWriteBuf s2 =
                controlWriteBuf s
                @ [SUBSCRIBE (sub\<lparr>sub_subscribeID := nextSubscribeID s,
                                   sub_trackAlias := nextSubscribeID s\<rparr>)]
            \<and> controlWriteSignals s2 = Suc (controlWriteSignals s)
            \<and> warnings s2 =
                (if peerMaxSubscribeID s \<le> nextSubscribeID s
                 then warnings s @ [''Issuing subscribe that will fail''] else warnings s)))
   \<and> (codec (FETCH (f\<lparr>fetch_subscribeID := nextSubscribeID s\<rparr>))
       \<and> map_of (fetches s) (nextSubscribeID s) = None \<longrightarrow>
       (\<exists>s2. fetch codec f fetchCallback s = Some (Inr (nextSubscribeID s), s2)
            \<and> controlWriteBuf s2 =
                controlWriteBuf s @ [FETCH (f\<lparr>fetch_subscribeID := nextSubscribeID s\<rparr>)]
            \<and> controlWriteSignals s2 = Suc (controlWriteSignals s)
            \<and> warnings s2 =
                (if peerMaxSubscribeID s \<le> nextSubscribeID s
                 then warnings s @ [''Issuing fetch that will fail''] else warnings s)))"
  by (auto simp add: subscribe_def fetch_def writeFrame_def signal_def Let_def
      split: if_splits)

text \<open>An established session with peer maximum 10 allocates id 0 without a warning;
  a new client, whose peer maximum is still 0, allocates id 0 too, warns, and writes
  the SUBSCRIBE and the FETCH frame.\<close>

theorem outbound_id_is_next_witness:
  "subscribe acceptAll (sampleSubscribe 7) True (establishedServer 10) =
     Some (Inr 0, afterSubscribe)
   \<and> fetch acceptAll (sampleFetch 7) True (establishedServer 10) = Some (Inr 0, afterFetch)
   \<and> nextSubscribeID (establishedServer 10) = 0
   \<and> nextSubscribeID afterSubscribe = 1
   \<and> nextSubscribeID afterFetch = 1
   \<and> warnings afterSubscribe = []
   \<and> warnings afterFetch = []
   \<and> controlWriteBuf afterSubscribe = [SUBSCRIBE (sampleSubscribe 0)]
   \<and> controlWriteBuf afterFetch = [FETCH (sampleFetch 0)]
   \<and> peerMaxSubscribeID (newSession CLIENT) \<le> nextSubscribeID (newSession CLIENT)
   \<and> map_option fst (subscribe acceptAll (sampleSubscribe 7) True (newSession CLIENT)) =
       Some (Inr 0)
   \<and> map_option (controlWriteBuf \<circ> snd)
        (subscribe acceptAll (sampleSubscribe 7) True (newSession CLIENT)) =
       Some [SUBSCRIBE (sampleSubscribe 0)]
   \<and> map_option (warnings \<circ> snd)
        (subscribe acceptAll (sampleSubscribe 7) True (newSession CLIENT)) =
       Some [''Issuing subscribe that will fail'']
   \<and> map_option fst (fetch acceptAll (sampleFetch 7) True (newSession CLIENT)) =
       Some (Inr 0)
   \<and> map_option (controlWriteBuf \<circ> snd)
        (fetch acceptAll (sampleFetch 7) True (newSession CLIENT)) =
       Some [FETCH (sampleFetch 0)]
   \<and> map_option (warnings \<circ> snd)
        (fetch acceptAll (sampleFetch 7) True (newSession CLIENT)) =
       Some [''Issuing fetch that will fail'']"
proof -
  let ?server = "establishedServer 10"
  let ?client = "newSession CLIENT"
  have a: "subscribe acceptAll (sampleSubscribe 7) True ?server = Some (Inr 0, afterSubscribe)"
    by (simp add: subscribe_def writeFrame_def signal_def acceptAll_def establishedServer_def
        newSession_def sampleSubscribe_def afterSubscribe_def emplace_def Let_def
        word_le_nat_alt)
  have b: "fetch acceptAll (sampleFetch 7) True ?server = Some (Inr 0, afterFetch)"
    by (simp add: fetch_def writeFrame_def signal_def acceptAll_def establishedServer_def
        newSession_def sampleFetch_def afterFetch_def emplace_def Let_def word_le_nat_alt)
  have c: "nextSubscribeID ?server = 0" "peerMaxSubscribeID ?server = 10"
    "warnings ?server = []" "controlWriteBuf ?server = []"
    by (simp_all add: establishedServer_def newSession_def)
  have d: "nextSubscribeID ?client = 0" "peerMaxSubscribeID ?client = 0"
    "warnings ?client = []" "controlWriteBuf ?client = []"
    "map_of (subIdToTrackAlias ?client) 0 = None" "map_of (subTracks ?client) 0 = None"
    "map_of (fetches ?client) 0 = None"
    by (simp_all add: newSession_def)
  have e: "(sampleSubscribe 7)\<lparr>sub_subscribeID := 0, sub_trackAlias := 0\<rparr> = sampleSubscribe 0"
    "(sampleFetch 7)\<lparr>fetch_subscribeID := 0\<rparr> = sampleFetch 0"
    by (simp_all add: sampleSubscribe_def sampleFetch_def)
  have k: "acceptAll (SUBSCRIBE (sampleSubscribe 0))" "acceptAll (FETCH (sampleFetch 0))"
    by (simp_all add: acceptAll_def)
  have ten: "\<not> (10::64 word) \<le> 0" by (simp add: word_le_nat_alt)
  note srv_sub = outbound_id_is_next
         [where s = ?server and sub = "sampleSubscribe 7" and callback = True
            and codec = acceptAll and res = "Inr 0" and s' = afterSubscribe
            and f = "sampleFetch 7" and fetchCallback = True, THEN conjunct1]
  note srv_fetch = outbound_id_is_next
         [where s = ?server and sub = "sampleSubscribe 7" and callback = True
            and codec = acceptAll and res = "Inr 0" and s' = afterFetch
            and f = "sampleFetch 7" and fetchCallback = True, THEN conjunct2, THEN conjunct1]
  note cli_sub = outbound_id_is_next
         [where s = ?client and sub = "sampleSubscribe 7" and callback = True
            and codec = acceptAll and res = "Inr 0" and s' = ?client
            and f = "sampleFetch 7" and fetchCallback = True,
          THEN conjunct2, THEN conjunct2, THEN conjunct1]
  note cli_fetch = outbound_id_is_next
         [where s = ?client and sub = "sampleSubscribe 7" and callback = True
            and codec = acceptAll and res = "Inr 0" and s' = ?client
            and f = "sampleFetch 7" and fetchCallback = True,
          THEN conjunct2, THEN conjunct2, THEN conjunct2]
  from srv_sub a c e k ten have r1: "nextSubscribeID afterSubscribe = 1"
    "warnings afterSubscribe = []" "controlWriteBuf afterSubscribe = [SUBSCRIBE (sampleSubscribe 0)]"
    by simp_all
  from srv_fetch b c e k ten have r2: "nextSubscribeID afterFetch = 1"
    "warnings afterFetch = []" "controlWriteBuf afterFetch = [FETCH (sampleFetch 0)]"
    by simp_all
  from cli_sub d e k obtain s2 where
    "subscribe acceptAll (sampleSubscribe 7) True ?client = Some (Inr 0, s2)"
    "controlWriteBuf s2 = [SUBSCRIBE (sampleSubscribe 0)]"
    "warnings s2 = [''Issuing subscribe that will fail'']"
    by auto
  then have r3: "map_option fst (subscribe acceptAll (sampleSubscribe 7) True ?client) =
       Some (Inr 0)"
    "map_option (controlWriteBuf \<circ> snd)
        (subscribe acceptAll (sampleSubscribe 7) True ?client) =
       Some [SUBSCRIBE (sampleSubscribe 0)]"
    "map_option (warnings \<circ> snd) (subscribe acceptAll (sampleSubscribe 7) True ?client) =
       Some [''Issuing subscribe that will fail'']"
    by simp_all
  from cli_fetch d e k obtain s3 where
    "fetch acceptAll (sampleFetch 7) True ?client = Some (Inr 0, s3)"
    "controlWriteBuf s3 = [FETCH (sampleFetch 0)]"
    "warnings s3 = [''Issuing fetch that will fail'']"
    by auto
  then have r4: "map_option fst (fetch acceptAll (sampleFetch 7) True ?client) = Some (Inr 0)"
    "map_option (controlWriteBuf \<circ> snd) (fetch acceptAll (sampleFetch 7) True ?client) =
       Some [FETCH (sampleFetch 0)]"
    "map_option (warnings \<circ> snd) (fetch acceptAll (sampleFetch 7) True ?client) =
       Some [''Issuing fetch that will fail'']"
    by simp_all
  have le: "peerMaxSubscribeID ?client \<le> nextSubscribeID ?client"
    by (simp add: d)
  from a b c(1) r1 r2 le r3 r4 show ?thesis by blast
qed

subsection \<open>Setup without MAX\_SUBSCRIBE\_ID\<close>

lemma getMaxSubscribeIdIfPresent_absent:
  "\<forall>p\<in>set params. param_key p \<noteq> maxKey \<Longrightarrow> getMaxSubscribeIdIfPresent maxKey params = 0"
  by (induction params) simp_all

text \<open>With \<^verbatim>\<open>maxSubscribeID_\<close> at 0 every id fails the bound.\<close>

lemma onInbound_closed_window:
  assumes "maxSubscribeID s = 0"
  shows "controlMessages (onInbound codec m s) = controlMessages s"
    and "\<not> wt (onInbound codec m s)"
    and "closeSessionCalls (onInbound codec m s) =
           (if wt s then closeSessionCalls s @ [TOO_MANY_SUBSCRIBES] else closeSessionCalls s)"
    and "pubTracks (onInbound codec m s) = (if wt s then [] else pubTracks s)"
    and "pubTracks s = [] \<Longrightarrow> maxSubscribeID (onInbound codec m s) = 0"
  using assms
  by (cases m; simp add: onSubscribe_def onFetch_def closeSessionIfSubscribeIdInvalid_def
        close_frame close_no_publishers)+

lemma fold_onInbound_closed_window:
  "maxSubscribeID s = 0 \<Longrightarrow> pubTracks s = [] \<Longrightarrow>
   controlMessages (fold (onInbound codec) msgs s) = controlMessages s
   \<and> pubTracks (fold (onInbound codec) msgs s) = []
   \<and> closeSessionCalls (fold (onInbound codec) msgs s) =
        (if wt s \<and> msgs \<noteq> [] then closeSessionCalls s @ [TOO_MANY_SUBSCRIBES]
         else closeSessionCalls s)"
proof (induction msgs arbitrary: s)
  case Nil
  then show ?case by simp
next
  case (Cons m msgs)
  let ?s1 = "onInbound codec m s"
  have a: "maxSubscribeID ?s1 = 0" "pubTracks ?s1 = []" "\<not> wt ?s1"
    using Cons.prems by (simp_all add: onInbound_closed_window)
  from Cons.IH [OF a(1) a(2)] a(3) Cons.prems show ?case
    by (simp add: onInbound_closed_window)
qed

text \<open>
  Claim C10: when the setup message the session sends (SERVER\_SETUP on a server,
  CLIENT\_SETUP on a client) has no MAX\_SUBSCRIBE\_ID parameter, the value is taken as 0
  and \<^verbatim>\<open>maxSubscribeID_\<close> becomes 0; from then on an inbound SUBSCRIBE or FETCH closes
  the session with TOO\_MANY\_SUBSCRIBES whatever its id, and nothing reaches the
  application. The last conjunct follows any non-empty sequence of such messages on a
  session that held no publisher when it was set up: the first one closes the session,
  none is accepted.
\<close>

theorem setup_without_max_subscribe_id:
  "(dir s = SERVER \<and> wt s \<and> kVersion \<in> set (supportedVersions cs)
      \<and> serverSetupCallback cs = Some ss
      \<and> (\<forall>p\<in>set (server_params ss). param_key p \<noteq> maxKey)
      \<and> codec (SERVER_SETUP ss) \<longrightarrow>
      (\<exists>s'. onClientSetup kVersion maxKey codec serverSetupCallback cs s = Some s'
            \<and> maxSubscribeID s' = 0 \<and> wt s'
            \<and> (\<forall>m. closeSessionCalls (onInbound codec m s') =
                      closeSessionCalls s @ [TOO_MANY_SUBSCRIBES]
                    \<and> controlMessages (onInbound codec m s') = controlMessages s)
            \<and> (pubTracks s = [] \<longrightarrow>
                 (\<forall>msgs. msgs \<noteq> [] \<longrightarrow>
                    closeSessionCalls (fold (onInbound codec) msgs s') =
                      closeSessionCalls s @ [TOO_MANY_SUBSCRIBES]
                    \<and> controlMessages (fold (onInbound codec) msgs s') = controlMessages s
                    \<and> pubTracks (fold (onInbound codec) msgs s') = []))))
   \<and> (dir s = CLIENT \<and> wt s
      \<and> (\<forall>p\<in>set (client_params cs). param_key p \<noteq> maxKey)
      \<and> codec (CLIENT_SETUP cs) \<longrightarrow>
      (\<exists>s'. setupClient maxKey codec cs s = Some (Inr s')
            \<and> maxSubscribeID s' = 0 \<and> wt s'
            \<and> (\<forall>m. closeSessionCalls (onInbound codec m s') =
                      closeSessionCalls s @ [TOO_MANY_SUBSCRIBES]
                    \<and> controlMessages (onInbound codec m s') = controlMessages s)
            \<and> (pubTracks s = [] \<longrightarrow>
                 (\<forall>msgs. msgs \<noteq> [] \<longrightarrow>
                    closeSessionCalls (fold (onInbound codec) msgs s') =
                      closeSessionCalls s @ [TOO_MANY_SUBSCRIBES]
                    \<and> controlMessages (fold (onInbound codec) msgs s') = controlMessages s
                    \<and> pubTracks (fold (onInbound codec) msgs s') = []))))"
proof (intro conjI impI)
  assume h: "dir s = SERVER \<and> wt s \<and> kVersion \<in> set (supportedVersions cs)
      \<and> serverSetupCallback cs = Some ss
      \<and> (\<forall>p\<in>set (server_params ss). param_key p \<noteq> maxKey)
      \<and> codec (SERVER_SETUP ss)"
  define s' where
    "s' = signal (s\<lparr>peerMaxSubscribeID :=
                       getMaxSubscribeIdIfPresent maxKey (client_params cs),
                     controlWriteBuf := controlWriteBuf s @ [SERVER_SETUP ss],
                     maxSubscribeID := 0, maxConcurrentSubscribes := 0,
                     setupComplete := True\<rparr>)"
  have z: "getMaxSubscribeIdIfPresent maxKey (server_params ss) = 0"
    using h by (simp add: getMaxSubscribeIdIfPresent_absent)
  have e: "onClientSetup kVersion maxKey codec serverSetupCallback cs s = Some s'"
    using h z by (simp add: onClientSetup_def writeFrame_def s'_def Let_def)
  have f: "maxSubscribeID s' = 0" "wt s'" "closeSessionCalls s' = closeSessionCalls s"
    "controlMessages s' = controlMessages s" "pubTracks s' = pubTracks s"
    using h by (simp_all add: s'_def signal_def)
  show "\<exists>s'. onClientSetup kVersion maxKey codec serverSetupCallback cs s = Some s'
            \<and> maxSubscribeID s' = 0 \<and> wt s'
            \<and> (\<forall>m. closeSessionCalls (onInbound codec m s') =
                      closeSessionCalls s @ [TOO_MANY_SUBSCRIBES]
                    \<and> controlMessages (onInbound codec m s') = controlMessages s)
            \<and> (pubTracks s = [] \<longrightarrow>
                 (\<forall>msgs. msgs \<noteq> [] \<longrightarrow>
                    closeSessionCalls (fold (onInbound codec) msgs s') =
                      closeSessionCalls s @ [TOO_MANY_SUBSCRIBES]
                    \<and> controlMessages (fold (onInbound codec) msgs s') = controlMessages s
                    \<and> pubTracks (fold (onInbound codec) msgs s') = []))"
    using e f by (simp add: onInbound_closed_window fold_onInbound_closed_window)
next
  assume h: "dir s = CLIENT \<and> wt s
      \<and> (\<forall>p\<in>set (client_params cs). param_key p \<noteq> maxKey)
      \<and> codec (CLIENT_SETUP cs)"
  define s' where
    "s' = signal (s\<lparr>controlWriteBuf := controlWriteBuf s @ [CLIENT_SETUP cs],
                     maxSubscribeID := 0, maxConcurrentSubscribes := 0\<rparr>)"
  have z: "getMaxSubscribeIdIfPresent maxKey (client_params cs) = 0"
    using h by (simp add: getMaxSubscribeIdIfPresent_absent)
  have e: "setupClient maxKey codec cs s = Some (Inr s')"
    using h z by (simp add: setupClient_def writeFrame_def s'_def Let_def)
  have f: "maxSubscribeID s' = 0" "wt s'" "closeSessionCalls s' = closeSessionCalls s"
    "controlMessages s' = controlMessages s" "pubTracks s' = pubTracks s"
    using h by (simp_all add: s'_def signal_def)
  show "\<exists>s'. setupClient maxKey codec cs s = Some (Inr s')
            \<and> maxSubscribeID s' = 0 \<and> wt s'
            \<and> (\<forall>m. closeSessionCalls (onInbound codec m s') =
                      closeSessionCalls s @ [TOO_MANY_SUBSCRIBES]
                    \<and> controlMessages (onInbound codec m s') = controlMessages s)
            \<and> (pubTracks s = [] \<longrightarrow>
                 (\<forall>msgs. msgs \<noteq> [] \<longrightarrow>
                    closeSessionCalls (fold (onInbound codec) msgs s') =
                      closeSessionCalls s @ [TOO_MANY_SUBSCRIBES]
                    \<and> controlMessages (fold (onInbound codec) msgs s') = controlMessages s
                    \<and> pubTracks (fold (onInbound codec) msgs s') = []))"
    using e f by (simp add: onInbound_closed_window fold_onInbound_closed_window)
qed

text \<open>A server and a client that send a setup message without parameters, then receive
  SUBSCRIBE with id 0 and FETCH with id 1.\<close>

theorem setup_without_max_subscribe_id_witness:
  "onClientSetup 1 2 acceptAll (\<lambda>c. Some sampleServerSetup) sampleClientSetup
     (newSession SERVER) = Some serverAfterSetup
   \<and> setupClient 2 acceptAll sampleClientSetup (newSession CLIENT) =
       Some (Inr clientAfterSetup)
   \<and> maxSubscribeID serverAfterSetup = 0
   \<and> maxSubscribeID clientAfterSetup = 0
   \<and> closeSessionCalls
        (fold (onInbound acceptAll) [InSubscribe (sampleSubscribe 0), InFetch (sampleFetch 1)]
           serverAfterSetup) = [TOO_MANY_SUBSCRIBES]
   \<and> controlMessages
        (fold (onInbound acceptAll) [InSubscribe (sampleSubscribe 0), InFetch (sampleFetch 1)]
           serverAfterSetup) = []
   \<and> closeSessionCalls
        (fold (onInbound acceptAll) [InSubscribe (sampleSubscribe 0), InFetch (sampleFetch 1)]
           clientAfterSetup) = [TOO_MANY_SUBSCRIBES]"
proof -
  have a: "onClientSetup 1 2 acceptAll (\<lambda>c. Some sampleServerSetup) sampleClientSetup
             (newSession SERVER) = Some serverAfterSetup"
    by (simp add: onClientSetup_def writeFrame_def signal_def acceptAll_def
        sampleServerSetup_def sampleClientSetup_def serverAfterSetup_def newSession_def Let_def)
  have b: "setupClient 2 acceptAll sampleClientSetup (newSession CLIENT) =
             Some (Inr clientAfterSetup)"
    by (simp add: setupClient_def writeFrame_def signal_def acceptAll_def
        sampleClientSetup_def clientAfterSetup_def newSession_def Let_def)
  have hs: "dir (newSession SERVER) = SERVER \<and> wt (newSession SERVER)
      \<and> 1 \<in> set (supportedVersions sampleClientSetup)
      \<and> (\<lambda>c. Some sampleServerSetup) sampleClientSetup = Some sampleServerSetup
      \<and> (\<forall>p\<in>set (server_params sampleServerSetup). param_key p \<noteq> 2)
      \<and> acceptAll (SERVER_SETUP sampleServerSetup)"
    by (simp add: newSession_def sampleClientSetup_def sampleServerSetup_def acceptAll_def)
  have hc: "dir (newSession CLIENT) = CLIENT \<and> wt (newSession CLIENT)
      \<and> (\<forall>p\<in>set (client_params sampleClientSetup). param_key p \<noteq> 2)
      \<and> acceptAll (CLIENT_SETUP sampleClientSetup)"
    by (simp add: newSession_def sampleClientSetup_def acceptAll_def)
  have e: "pubTracks (newSession SERVER) = []" "pubTracks (newSession CLIENT) = []"
    "closeSessionCalls (newSession SERVER) = []" "closeSessionCalls (newSession CLIENT) = []"
    "controlMessages (newSession SERVER) = []"
    by (simp_all add: newSession_def)
  note srv = setup_without_max_subscribe_id
               [where s = "newSession SERVER" and kVersion = 1 and cs = sampleClientSetup
                  and serverSetupCallback = "\<lambda>c. Some sampleServerSetup"
                  and ss = sampleServerSetup and maxKey = 2 and codec = acceptAll,
                THEN conjunct1, THEN mp, OF hs]
  note cli = setup_without_max_subscribe_id
               [where s = "newSession CLIENT" and cs = sampleClientSetup and maxKey = 2
                  and codec = acceptAll,
                THEN conjunct2, THEN mp, OF hc]
  let ?msgs = "[InSubscribe (sampleSubscribe 0), InFetch (sampleFetch 1)]"
  have ne: "?msgs \<noteq> []" by simp
  from srv a e have m1: "maxSubscribeID serverAfterSetup = 0"
    and s1: "\<forall>msgs. msgs \<noteq> [] \<longrightarrow>
               closeSessionCalls (fold (onInbound acceptAll) msgs serverAfterSetup) =
                 [TOO_MANY_SUBSCRIBES]
               \<and> controlMessages (fold (onInbound acceptAll) msgs serverAfterSetup) = []
               \<and> pubTracks (fold (onInbound acceptAll) msgs serverAfterSetup) = []"
    by auto
  from cli b e have m2: "maxSubscribeID clientAfterSetup = 0"
    and s2: "\<forall>msgs. msgs \<noteq> [] \<longrightarrow>
               closeSessionCalls (fold (onInbound acceptAll) msgs clientAfterSetup) =
                 [TOO_MANY_SUBSCRIBES]
               \<and> controlMessages (fold (onInbound acceptAll) msgs clientAfterSetup) =
                   controlMessages (newSession CLIENT)
               \<and> pubTracks (fold (onInbound acceptAll) msgs clientAfterSetup) = []"
    by auto
  from s1 ne have r1:
    "closeSessionCalls (fold (onInbound acceptAll) ?msgs serverAfterSetup) =
       [TOO_MANY_SUBSCRIBES]"
    "controlMessages (fold (onInbound acceptAll) ?msgs serverAfterSetup) = []"
    by blast+
  from s2 ne have r2:
    "closeSessionCalls (fold (onInbound acceptAll) ?msgs clientAfterSetup) =
       [TOO_MANY_SUBSCRIBES]"
    by blast
  from a b m1 m2 r1 r2 show ?thesis by blast
qed

subsection \<open>Stream writer: what a call does to the log\<close>

lemma reset_fields:
  "writeHandle (reset e w) = False"
  "header (reset e w) = header w"
  "currentLengthRemaining (reset e w) = currentLengthRemaining w"
  "writeBuf (reset e w) = writeBuf w"
  "handleCalls (reset e w) = (if writeHandle w then handleCalls w @ [ResetStream e] else
    handleCalls w)"
  "streamCompletes (reset e w) = streamCompletes w @ [header w]"
  "streamType (reset e w) = streamType w"
  by (simp_all add: reset_def onStreamComplete_def)

lemma validatePublish_reject:
  "currentLengthRemaining w \<noteq> None \<or> (hdr_id (header w) \<noteq> uint64_max
    \<and> objectID \<le> hdr_id (header w)) \<Longrightarrow>
   \<exists>msg. validatePublish objectID w = (Inl (MoQPublishError API_ERROR msg), reset
     Reset_INTERNAL_ERROR w)"
  by (auto simp add: validatePublish_def)

lemma validatePublish_ok:
  "validatePublish objectID w = (Inr u, w1) \<Longrightarrow>
   w1 = w \<and> writeHandle w \<and> currentLengthRemaining w = None
     \<and> (hdr_id (header w) = uint64_max \<or> hdr_id (header w) < objectID)"
  by (auto simp add: validatePublish_def split: if_splits)

lemma publishCall_reject:
  assumes "currentLengthRemaining w \<noteq> None
    \<or> (hdr_id (header w) \<noteq> uint64_max \<and> objectID \<le> hdr_id (header w))"
  shows "\<exists>msg. publishCall c objectID wr w = Some (Inl (MoQPublishError API_ERROR msg),
    reset Reset_INTERNAL_ERROR w)"
proof -
  from validatePublish_reject [OF assms] obtain msg where
    v: "validatePublish objectID w = (Inl (MoQPublishError API_ERROR msg), reset
      Reset_INTERNAL_ERROR w)" ..
  show ?thesis
    by (cases c) (simp_all add: object_def objectNotExists_def endOfGroup_def
      endOfTrackAndGroup_def publishStatus_def beginObject_def v)
qed

lemma writeToStream_header:
  "writeToStream fin wr w = Some (r, w') \<Longrightarrow> header w' = header w"
  by (auto simp add: writeToStream_def Let_def reset_def onStreamComplete_def split: if_splits)

lemma writeCurrentObject_header:
  "writeCurrentObject i n p fin wr w = Some (r, w')
    \<Longrightarrow> hdr_id (header w') = i \<and> hdr_group (header w') = hdr_group (header w)"
  by (auto simp add: writeCurrentObject_def Let_def dest!: writeToStream_header)

lemma validateObjectPublish_header:
  "validateObjectPublishAndUpdateState p fin w = (r, w') \<Longrightarrow> header w' = header w"
  by (auto simp add: validateObjectPublishAndUpdateState_def Let_def reset_fields split:
    option.splits if_splits)

lemma publishCall_accept:
  assumes "publishCall c objectID wr w = Some (Inr u, w')"
  shows "(hdr_id (header w) = uint64_max \<or> hdr_id (header w) < objectID)
    \<and> hdr_id (header w') = objectID"
  using assms
  apply (cases c)
  apply (auto simp add: object_def objectNotExists_def endOfGroup_def endOfTrackAndGroup_def
    publishStatus_def beginObject_def
       split: prod.splits sum.splits dest!: validatePublish_ok writeCurrentObject_header
         validateObjectPublish_header)
  done

text \<open>Every call either leaves the log of written objects alone or appends one object
  whose id passed the check of \<^const>\<open>validatePublish\<close>.\<close>

lemma objectsWritten_update [simp]:
  "objectsWritten (w\<lparr>header := h\<rparr>) = objectsWritten w"
  "objectsWritten (w\<lparr>writeBuf := b\<rparr>) = objectsWritten w"
  "objectsWritten (w\<lparr>currentLengthRemaining := c\<rparr>) = objectsWritten w"
  "objectsWritten (w\<lparr>writeHandle := x\<rparr>) = objectsWritten w"
  by (simp_all add: objectsWritten_def)

lemma noPending_update [simp]:
  "noPending (w\<lparr>header := h\<rparr>) = noPending w"
  "noPending (w\<lparr>currentLengthRemaining := c\<rparr>) = noPending w"
  "noPending (w\<lparr>writeHandle := x\<rparr>) = noPending w"
  by (simp_all add: noPending_def)

lemma objectsWritten_reset [simp]: "objectsWritten (reset e w) = objectsWritten w"
  by (simp add: objectsWritten_def reset_def onStreamComplete_def)

lemma noPending_reset [simp]: "noPending (reset e w) = noPending w"
  by (simp add: noPending_def reset_def onStreamComplete_def)

lemma unchanged_reset: "noPending w \<Longrightarrow> unchanged w (reset e w)"
  by (simp add: unchanged_def reset_fields)

lemma writeToStream_written:
  "writeToStream fin wr w = Some (r, w') \<Longrightarrow>
   objectsWritten w' = objectsWritten w @ concat (map wireObjects (writeBuf w))
     \<and> writeBuf w' = [] \<and> header w' = header w"
  by (auto simp add: writeToStream_def Let_def reset_def onStreamComplete_def objectsWritten_def
    split: if_splits)

lemma concat_noPending: "noPending w \<Longrightarrow> concat (map wireObjects (writeBuf w)) = []"
  by (simp add: noPending_def list_all_iff)

lemma writeToStream_unchanged:
  "noPending w \<Longrightarrow> writeToStream fin wr w = Some (r, w')
    \<Longrightarrow> unchanged w w'"
  by (auto simp add: unchanged_def noPending_def concat_noPending dest!: writeToStream_written)

lemma writeCurrentObject_written:
  assumes "noPending w" "writeCurrentObject i n p fin wr w = Some (r, w')"
  shows "objectsWritten w' = objectsWritten w @ [header w'] \<and> noPending w'
    \<and> hdr_id (header w') = i
     \<and> hdr_group (header w') = hdr_group (header w)
       \<and> hdr_subgroup (header w') = hdr_subgroup (header w)"
  using assms
  by (auto simp add: writeCurrentObject_def Let_def noPending_def list_all_iff dest!:
    writeToStream_written)

lemma validatePublish_cases:
  "validatePublish i w = (r, w1) \<Longrightarrow>
   (\<exists>e. r = Inl e \<and> (w1 = w \<or> w1 = reset Reset_INTERNAL_ERROR w)) \<or>
   (r = Inr () \<and> w1 = w \<and> writeHandle w \<and> currentLengthRemaining w = None
     \<and> (hdr_id (header w) = uint64_max \<or> hdr_id (header w) < i))"
  by (auto simp add: validatePublish_def split: if_splits)

lemma validateObjectPublish_unchanged:
  "noPending w \<Longrightarrow> validateObjectPublishAndUpdateState p fin w = (r, w')
    \<Longrightarrow> unchanged w w'"
  by (auto simp add: validateObjectPublishAndUpdateState_def Let_def unchanged_def reset_fields
    noPending_def objectsWritten_def
      split: option.splits if_splits)

lemma unchanged_appended: "unchanged w w' \<Longrightarrow> appended i w w'"
  by (simp add: unchanged_def appended_def)

lemma object_appended:
  assumes "noPending w" "object i p fin wr w = Some (r, w')"
  shows "appended i w w'"
proof (cases "validatePublish i w")
  case (Pair v w1)
  from validatePublish_cases [OF Pair] consider
    (rej) e where "v = Inl e" "w1 = w \<or> w1 = reset Reset_INTERNAL_ERROR w"
    | (ok) "v = Inr ()" "w1 = w" "hdr_id (header w) = uint64_max \<or> hdr_id (header w) < i"
    by blast
  then show ?thesis
  proof cases
    case rej
    with assms Pair show ?thesis
      by (auto simp add: object_def appended_def reset_fields)
  next
    case ok
    note a = ok
    with assms Pair have "writeCurrentObject i (chainDataLength p) p fin wr w = Some (r, w')"
      by (simp add: object_def)
    from writeCurrentObject_written [OF assms(1) this] a(3) show ?thesis
      by (simp add: appended_def)
  qed
qed

lemma publishStatus_appended:
  assumes "noPending w" "publishStatus i st fin wr w = Some (r, w')"
  shows "appended i w w'"
proof (cases "validatePublish i w")
  case (Pair v w1)
  from validatePublish_cases [OF Pair] consider
    (rej) e where "v = Inl e" "w1 = w \<or> w1 = reset Reset_INTERNAL_ERROR w"
    | (ok) "v = Inr ()" "w1 = w" "hdr_id (header w) = uint64_max \<or> hdr_id (header w) < i"
    by blast
  then show ?thesis
  proof cases
    case rej
    with assms Pair show ?thesis
      by (auto simp add: publishStatus_def appended_def reset_fields)
  next
    case ok
    note a = ok
    let ?w = "w\<lparr>header := (header w)\<lparr>hdr_status := st\<rparr>\<rparr>"
    from a assms Pair have "writeCurrentObject i 0 None fin wr ?w = Some (r, w')"
      by (simp add: publishStatus_def)
    moreover have "noPending ?w" using assms(1) by (simp add: noPending_def)
    ultimately have "objectsWritten w' = objectsWritten ?w @ [header w']
      \<and> noPending w' \<and> hdr_id (header w') = i
     \<and> hdr_group (header w') = hdr_group (header ?w)
       \<and> hdr_subgroup (header w') = hdr_subgroup (header ?w)"
      by (rule writeCurrentObject_written [rotated])
    with a(3) show ?thesis
      by (simp add: appended_def objectsWritten_def)
  qed
qed

lemma beginObject_appended:
  assumes "noPending w" "beginObject i n p wr w = Some (r, w')"
  shows "appended i w w'"
proof (cases "validatePublish i w")
  case (Pair v w1)
  from validatePublish_cases [OF Pair] consider
    (rej) e where "v = Inl e" "w1 = w \<or> w1 = reset Reset_INTERNAL_ERROR w"
    | (ok) "v = Inr ()" "w1 = w" "hdr_id (header w) = uint64_max \<or> hdr_id (header w) < i"
    by blast
  then show ?thesis
  proof cases
    case rej
    with assms Pair show ?thesis
      by (auto simp add: beginObject_def appended_def reset_fields)
  next
    case ok
    note a = ok
    let ?w = "w\<lparr>currentLengthRemaining := Some n\<rparr>"
    have np: "noPending ?w" using assms(1) by (simp add: noPending_def)
    have same: "objectsWritten ?w = objectsWritten w" "header ?w = header w"
      by (simp_all add: objectsWritten_def)
    show ?thesis
    proof (cases "validateObjectPublishAndUpdateState p False ?w")
      case (Pair v2 w2)
      from validateObjectPublish_unchanged [OF np Pair] have u: "unchanged ?w w2" .
      show ?thesis
      proof (cases v2)
        case (Inl e)
        with a assms \<open>validatePublish i w = (v, w1)\<close> Pair have "w' = w2"
          by (simp add: beginObject_def)
        with u same show ?thesis by (simp add: unchanged_def appended_def)
      next
        case (Inr stt)
        with a assms \<open>validatePublish i w = (v, w1)\<close> Pair
        have "writeCurrentObject i n p False wr w2 = Some (r, w')"
          by (simp add: beginObject_def)
        moreover from u have "noPending w2" by (simp add: unchanged_def)
        ultimately have "objectsWritten w' = objectsWritten w2 @ [header w']
          \<and> noPending w' \<and> hdr_id (header w') = i
     \<and> hdr_group (header w') = hdr_group (header w2)
       \<and> hdr_subgroup (header w') = hdr_subgroup (header w2)"
          by (rule writeCurrentObject_written [rotated])
        with u same a(3) show ?thesis by (simp add: unchanged_def appended_def)
      qed
    qed
  qed
qed

lemma objectPayload_unchanged:
  assumes "noPending w" "objectPayload p fin wr w = Some (r, w')"
  shows "unchanged w w'"
proof (cases "validateObjectPublishAndUpdateState p fin w")
  case (Pair v w1)
  from validateObjectPublish_unchanged [OF assms(1) Pair] have u: "unchanged w w1" .
  show ?thesis
  proof (cases v)
    case (Inl e)
    with assms Pair u show ?thesis by (simp add: objectPayload_def)
  next
    case (Inr st)
    let ?w = "w1\<lparr>writeBuf := writeBuf w1 @ [PayloadBytes p]\<rparr>"
    have np: "noPending ?w" using u by (simp add: unchanged_def noPending_def)
    from Inr assms Pair obtain r2 where "writeToStream fin wr ?w = Some (r2, w')"
      by (auto simp add: objectPayload_def split: option.splits sum.splits)
    from writeToStream_unchanged [OF np this] u show ?thesis
      by (simp add: unchanged_def objectsWritten_def)
  qed
qed

lemma endOfSubgroup_unchanged:
  "noPending w \<Longrightarrow> endOfSubgroup wr w = Some (r, w')
    \<Longrightarrow> unchanged w w'"
  by (auto simp add: endOfSubgroup_def unchanged_reset writeToStream_unchanged split: if_splits)

subsection \<open>Stream writer: invariants of a run\<close>

lemma appended_idsAdvance:
  assumes "idsAdvance w" "appended i w w'" "i \<noteq> uint64_max"
  shows "idsAdvance w'"
proof -
  from assms(2) consider
    (same) "noPending w'" "hdr_group (header w') = hdr_group (header w)"
      "objectsWritten w' = objectsWritten w" "hdr_id (header w') = hdr_id (header w)"
    | (app) "noPending w'" "hdr_group (header w') = hdr_group (header w)"
      "objectsWritten w' = objectsWritten w @ [header w']" "hdr_id (header w') = i"
      "hdr_id (header w) = uint64_max \<or> hdr_id (header w) < i"
    by (auto simp add: appended_def)
  then show ?thesis
  proof cases
    case same
    with assms(1) show ?thesis by (simp add: idsAdvance_def)
  next
    case app
    have old: "\<forall>h\<in>set (objectsWritten w). pairLess (pairOf h) (pairOf (header w'))"
      using assms(1) app by (fastforce simp add: idsAdvance_def pairOf_def)
    have inv: "\<forall>h\<in>set (objectsWritten w).
         hdr_group h < hdr_group (header w') \<or>
         (hdr_group h = hdr_group (header w') \<and> hdr_id h \<le> hdr_id (header w')
          \<and> hdr_id (header w') \<noteq> uint64_max)"
      using assms(1,3) app by (fastforce simp add: idsAdvance_def)
    from assms(1,3) app old inv show ?thesis
      by (simp add: idsAdvance_def sorted_wrt_append)
  qed
qed

lemma appended_groupsAdvance:
  assumes "groupsAdvance w" "appended i w w'"
  shows "groupsAdvance w'"
  using assms
  by (auto simp add: groupsAdvance_def appended_def sorted_append)

lemma unchanged_idsAdvance: "idsAdvance w \<Longrightarrow> unchanged w w'
  \<Longrightarrow> idsAdvance w'"
  by (simp add: idsAdvance_def unchanged_def)

lemma unchanged_groupsAdvance: "groupsAdvance w
  \<Longrightarrow> unchanged w w' \<Longrightarrow> groupsAdvance w'"
  by (simp add: groupsAdvance_def unchanged_def)

lemma setGroupAndSubgroup_cases:
  "setGroupAndSubgroup g sg w = (b, w1) \<Longrightarrow>
   (\<not> b \<and> w1 = w \<and> g < hdr_group (header w)) \<or>
   (b \<and> hdr_group (header w) \<le> g \<and> hdr_group (header w1) = g
     \<and> hdr_subgroup (header w1) = sg
      \<and> hdr_id (header w1) = (if hdr_group (header w) < g then uint64_max else hdr_id
        (header w))
      \<and> objectsWritten w1 = objectsWritten w \<and> noPending w1 = noPending w)"
  by (auto simp add: setGroupAndSubgroup_def Let_def split: if_splits)

lemma setGroupAndSubgroup_idsAdvance:
  "idsAdvance w \<Longrightarrow> setGroupAndSubgroup g sg w = (True, w1)
    \<Longrightarrow> idsAdvance w1"
  by (drule setGroupAndSubgroup_cases) (fastforce simp add: idsAdvance_def split: if_splits)

lemma setGroupAndSubgroup_groupsAdvance:
  "groupsAdvance w \<Longrightarrow> setGroupAndSubgroup g sg w = (True, w1)
    \<Longrightarrow> groupsAdvance w1"
  by (drule setGroupAndSubgroup_cases) (fastforce simp add: groupsAdvance_def)

lemma appended_status:
  "appended i (w\<lparr>header := (header w)\<lparr>hdr_status := st\<rparr>\<rparr>) w'
    \<Longrightarrow> appended i w w'"
  by (simp add: appended_def)

lemma noPending_status:
  "noPending w \<Longrightarrow> noPending (w\<lparr>header := (header w)\<lparr>hdr_status :=
    st\<rparr>\<rparr>)"
  by simp

lemma unchanged_refl: "noPending w \<Longrightarrow> unchanged w w"
  by (simp add: unchanged_def)

lemma fetchCall_step:
  assumes "noPending w" "fetchCall c wr w = Some w'"
  shows "unchanged w w' \<or>
         (\<exists>g sg w1 i. fetchCallId c = Some i
           \<and> setGroupAndSubgroup g sg w = (True, w1)
                      \<and> appended i w1 w')"
proof (cases c)
  case (FObject g sg i p fin)
  obtain b w1 where s: "setGroupAndSubgroup g sg w = (b, w1)" by (cases "setGroupAndSubgroup g sg
    w")
  show ?thesis
  proof (cases b)
    case False
    with setGroupAndSubgroup_cases [OF s] have "w1 = w" by simp
    with False s assms FObject show ?thesis by (auto simp add: object_fetch_def unchanged_refl)
  next
    case True
    from setGroupAndSubgroup_cases [OF s] True assms(1) have np: "noPending w1" by simp
    from True s assms FObject obtain r where
      "object i p fin wr (w1\<lparr>header := (header w1)\<lparr>hdr_status :=
        NORMAL\<rparr>\<rparr>) = Some (r, w')"
      by (auto simp add: object_fetch_def)
    from object_appended [OF noPending_status [OF np] this] have "appended i w1 w'"
      by (rule appended_status)
    with True s FObject show ?thesis by auto
  qed
next
  case (FObjectNotExists g sg i fin)
  obtain b w1 where s: "setGroupAndSubgroup g sg w = (b, w1)" by (cases "setGroupAndSubgroup g sg
    w")
  show ?thesis
  proof (cases b)
    case False
    with setGroupAndSubgroup_cases [OF s] have "w1 = w" by simp
    with False s assms FObjectNotExists show ?thesis by (auto simp add: objectNotExists_fetch_def
      unchanged_refl)
  next
    case True
    from setGroupAndSubgroup_cases [OF s] True assms(1) have np: "noPending w1" by simp
    from True s assms FObjectNotExists obtain r where
      "publishStatus i OBJECT_NOT_EXIST fin wr w1 = Some (r, w')"
      by (auto simp add: objectNotExists_fetch_def objectNotExists_def)
    from publishStatus_appended [OF np this] True s FObjectNotExists show ?thesis by auto
  qed
next
  case (FGroupNotExists g sg fin)
  obtain b w1 where s: "setGroupAndSubgroup g sg w = (b, w1)" by (cases "setGroupAndSubgroup g sg
    w")
  show ?thesis
  proof (cases b)
    case False
    with setGroupAndSubgroup_cases [OF s] have "w1 = w" by simp
    with False s assms FGroupNotExists show ?thesis by (auto simp add: groupNotExists_fetch_def
      unchanged_refl)
  next
    case True
    from setGroupAndSubgroup_cases [OF s] True assms(1) have np: "noPending w1" by simp
    from True s assms FGroupNotExists obtain r where
      "publishStatus 0 GROUP_NOT_EXIST fin wr w1 = Some (r, w')"
      by (auto simp add: groupNotExists_fetch_def)
    from publishStatus_appended [OF np this] True s FGroupNotExists show ?thesis by auto
  qed
next
  case (FBeginObject g sg i n p)
  obtain b w1 where s: "setGroupAndSubgroup g sg w = (b, w1)" by (cases "setGroupAndSubgroup g sg
    w")
  show ?thesis
  proof (cases b)
    case False
    with setGroupAndSubgroup_cases [OF s] have "w1 = w" by simp
    with False s assms FBeginObject show ?thesis by (auto simp add: beginObject_fetch_def
      unchanged_refl)
  next
    case True
    from setGroupAndSubgroup_cases [OF s] True assms(1) have np: "noPending w1" by simp
    from True s assms FBeginObject obtain r where
      "beginObject i n p wr (w1\<lparr>header := (header w1)\<lparr>hdr_status :=
        NORMAL\<rparr>\<rparr>) = Some (r, w')"
      by (auto simp add: beginObject_fetch_def)
    from beginObject_appended [OF noPending_status [OF np] this] have "appended i w1 w'"
      by (rule appended_status)
    with True s FBeginObject show ?thesis by auto
  qed
next
  case (FObjectPayload p fin)
  with assms show ?thesis by (auto dest: objectPayload_unchanged)
next
  case (FEndOfGroup g sg i fin)
  obtain b w1 where s: "setGroupAndSubgroup g sg w = (b, w1)" by (cases "setGroupAndSubgroup g sg
    w")
  show ?thesis
  proof (cases b)
    case False
    with setGroupAndSubgroup_cases [OF s] have "w1 = w" by simp
    with False s assms FEndOfGroup show ?thesis by (auto simp add: endOfGroup_fetch_def
      unchanged_refl)
  next
    case True
    from setGroupAndSubgroup_cases [OF s] True assms(1) have np: "noPending w1" by simp
    from True s assms FEndOfGroup obtain r where
      "publishStatus i END_OF_GROUP fin wr w1 = Some (r, w')"
      by (auto simp add: endOfGroup_fetch_def)
    from publishStatus_appended [OF np this] True s FEndOfGroup show ?thesis by auto
  qed
next
  case (FEndOfTrackAndGroup g sg i)
  obtain b w1 where s: "setGroupAndSubgroup g sg w = (b, w1)" by (cases "setGroupAndSubgroup g sg
    w")
  show ?thesis
  proof (cases b)
    case False
    with setGroupAndSubgroup_cases [OF s] have "w1 = w" by simp
    with False s assms FEndOfTrackAndGroup show ?thesis by (auto simp add:
      endOfTrackAndGroup_fetch_def unchanged_refl)
  next
    case True
    from setGroupAndSubgroup_cases [OF s] True assms(1) have np: "noPending w1" by simp
    from True s assms FEndOfTrackAndGroup obtain r where
      "publishStatus i END_OF_TRACK_AND_GROUP True wr w1 = Some (r, w')"
      by (auto simp add: endOfTrackAndGroup_fetch_def endOfTrackAndGroup_def)
    from publishStatus_appended [OF np this] True s FEndOfTrackAndGroup show ?thesis by auto
  qed
next
  case FEndOfFetch
  with assms show ?thesis
    by (auto simp add: endOfFetch_def unchanged_refl dest: endOfSubgroup_unchanged split:
      if_splits)
next
  case (FReset e)
  with assms show ?thesis by (auto simp add: unchanged_reset)
qed

lemma subgroupCall_step:
  assumes "noPending w" "subgroupCall c wr w = Some w'"
  shows "unchanged w w' \<or> (\<exists>i. subgroupCallId c = Some i \<and> appended i w w')"
  using assms
  by (cases c)
     (auto simp add: objectNotExists_def endOfGroup_def endOfTrackAndGroup_def unchanged_reset
       dest: object_appended publishStatus_appended beginObject_appended objectPayload_unchanged
             endOfSubgroup_unchanged)

lemma fetchCall_idsAdvance:
  assumes "idsAdvance w" "fetchCall c wr w = Some w'" "fetchCallId c \<noteq> Some uint64_max"
  shows "idsAdvance w'"
proof -
  from assms(1) have "noPending w" by (simp add: idsAdvance_def)
  from fetchCall_step [OF this assms(2)] show ?thesis
  proof (elim disjE exE conjE)
    assume "unchanged w w'"
    with assms(1) show ?thesis by (rule unchanged_idsAdvance)
  next
    fix g sg w1 i
    assume a: "fetchCallId c = Some i" "setGroupAndSubgroup g sg w = (True, w1)" "appended i w1
      w'"
    from setGroupAndSubgroup_idsAdvance [OF assms(1) a(2)] a(3) assms(3) a(1)
    show ?thesis by (auto intro: appended_idsAdvance)
  qed
qed

lemma fetchCall_groupsAdvance:
  assumes "groupsAdvance w" "fetchCall c wr w = Some w'"
  shows "groupsAdvance w' \<and> hdr_group (header w) \<le> hdr_group (header w')"
proof -
  from assms(1) have "noPending w" by (simp add: groupsAdvance_def)
  from fetchCall_step [OF this assms(2)] show ?thesis
  proof (elim disjE exE conjE)
    assume u: "unchanged w w'"
    with assms(1) have "groupsAdvance w'" by (rule unchanged_groupsAdvance)
    with u show ?thesis by (simp add: unchanged_def)
  next
    fix g sg w1 i
    assume a: "fetchCallId c = Some i" "setGroupAndSubgroup g sg w = (True, w1)" "appended i w1
      w'"
    from setGroupAndSubgroup_groupsAdvance [OF assms(1) a(2)] a(3)
    have "groupsAdvance w'" by (rule appended_groupsAdvance)
    moreover from setGroupAndSubgroup_cases [OF a(2)] a(3)
    have "hdr_group (header w) \<le> hdr_group (header w')" by (simp add: appended_def)
    ultimately show ?thesis ..
  qed
qed

lemma subgroupCall_idsAdvance:
  assumes "idsAdvance w" "subgroupCall c wr w = Some w'" "subgroupCallId c \<noteq> Some
    uint64_max"
  shows "idsAdvance w'"
proof -
  from assms(1) have "noPending w" by (simp add: idsAdvance_def)
  from subgroupCall_step [OF this assms(2)] assms(1,3) show ?thesis
    by (auto intro: appended_idsAdvance unchanged_idsAdvance)
qed

lemma fetchRun_idsAdvance:
  "idsAdvance w \<Longrightarrow> fetchRun cs w = Some w' \<Longrightarrow>
   \<forall>c\<in>set cs. fetchCallId (fst c) \<noteq> Some uint64_max
     \<Longrightarrow> idsAdvance w'"
proof (induction cs arbitrary: w)
  case Nil
  then show ?case by simp
next
  case (Cons a cs)
  obtain c wr where a: "a = (c, wr)" by (cases a)
  with Cons.prems obtain w1 where s: "fetchCall c wr w = Some w1" "fetchRun cs w1 = Some w'"
    by (auto split: option.splits)
  from Cons.prems a have "fetchCallId c \<noteq> Some uint64_max" by simp
  from fetchCall_idsAdvance [OF Cons.prems(1) s(1) this] s(2) Cons.prems(3) Cons.IH
  show ?case by simp
qed

lemma fetchRun_groupsAdvance:
  "groupsAdvance w \<Longrightarrow> fetchRun cs w = Some w' \<Longrightarrow>
   groupsAdvance w' \<and> hdr_group (header w) \<le> hdr_group (header w')"
proof (induction cs arbitrary: w)
  case Nil
  then show ?case by simp
next
  case (Cons a cs)
  obtain c wr where a: "a = (c, wr)" by (cases a)
  with Cons.prems obtain w1 where s: "fetchCall c wr w = Some w1" "fetchRun cs w1 = Some w'"
    by (auto split: option.splits)
  from fetchCall_groupsAdvance [OF Cons.prems(1) s(1)] Cons.IH [of w1] s(2)
  show ?case by auto
qed

lemma subgroupRun_idsAdvance:
  "idsAdvance w \<Longrightarrow> subgroupRun cs w = Some w' \<Longrightarrow>
   \<forall>c\<in>set cs. subgroupCallId (fst c) \<noteq> Some uint64_max
     \<Longrightarrow> idsAdvance w'"
proof (induction cs arbitrary: w)
  case Nil
  then show ?case by simp
next
  case (Cons a cs)
  obtain c wr where a: "a = (c, wr)" by (cases a)
  with Cons.prems obtain w1 where s: "subgroupCall c wr w = Some w1" "subgroupRun cs w1 = Some w'"
    by (auto split: option.splits)
  from Cons.prems a have "subgroupCallId c \<noteq> Some uint64_max" by simp
  from subgroupCall_idsAdvance [OF Cons.prems(1) s(1) this] s(2) Cons.prems(3) Cons.IH
  show ?case by simp
qed

lemma new_streams_advance:
  "idsAdvance (newFetchStream i)" "groupsAdvance (newFetchStream i)"
  "idsAdvance (newSubgroupStream i a g sg)"
  by (simp_all add: idsAdvance_def groupsAdvance_def newFetchStream_def newSubgroupStream_def
      setGroupAndSubgroup_def Let_def noPending_def objectsWritten_def)

lemma sorted_pairs_ids:
  "sorted_wrt pairLess (map pairOf hs)
    \<Longrightarrow> \<forall>h\<in>set hs. hdr_group h = g \<Longrightarrow>
   sorted_wrt (<) (map hdr_id hs)"
  by (induction hs) (auto simp add: pairOf_def)

lemma subgroupCall_oneGroup:
  assumes "noPending w" "oneGroup w" "subgroupCall c wr w = Some w'"
  shows "oneGroup w'"
  using subgroupCall_step [OF assms(1,3)] assms(2)
  by (auto simp add: oneGroup_def unchanged_def appended_def)

lemma subgroupRun_oneGroup:
  "idsAdvance w \<Longrightarrow> oneGroup w
    \<Longrightarrow> subgroupRun cs w = Some w' \<Longrightarrow>
   \<forall>c\<in>set cs. subgroupCallId (fst c) \<noteq> Some uint64_max
     \<Longrightarrow> oneGroup w'"
proof (induction cs arbitrary: w)
  case Nil
  then show ?case by simp
next
  case (Cons a cs)
  obtain c wr where a: "a = (c, wr)" by (cases a)
  with Cons.prems obtain w1 where s: "subgroupCall c wr w = Some w1" "subgroupRun cs w1 = Some w'"
    by (auto split: option.splits)
  from Cons.prems a have i: "subgroupCallId c \<noteq> Some uint64_max" by simp
  from Cons.prems(1) have np: "noPending w" by (simp add: idsAdvance_def)
  from subgroupCall_idsAdvance [OF Cons.prems(1) s(1) i]
       subgroupCall_oneGroup [OF np Cons.prems(2) s(1)] s(2) Cons.prems(4) Cons.IH
  show ?case by simp
qed

lemma subgroupRun_ids_increasing:
  assumes "subgroupRun cs (newSubgroupStream sid trackAlias g sg) = Some w"
    and "\<forall>c\<in>set cs. subgroupCallId (fst c) \<noteq> Some uint64_max"
  shows "sorted_wrt (<) (map hdr_id (objectsWritten w))"
proof -
  let ?w0 = "newSubgroupStream sid trackAlias g sg"
  have og: "oneGroup ?w0"
    by (simp add: oneGroup_def newSubgroupStream_def newFetchStream_def objectsWritten_def
        setGroupAndSubgroup_def Let_def)
  from subgroupRun_idsAdvance [OF new_streams_advance(3) assms]
  have "sorted_wrt pairLess (map pairOf (objectsWritten w))" by (simp add: idsAdvance_def)
  moreover from subgroupRun_oneGroup [OF new_streams_advance(3) og assms]
  have "\<forall>h\<in>set (objectsWritten w). hdr_group h = hdr_group (header w)"
    by (simp add: oneGroup_def list_all_iff)
  ultimately show ?thesis by (rule sorted_pairs_ids)
qed

subsection \<open>Monotonic object IDs on a subgroup stream\<close>

text \<open>
  Claim C4, as stated: on every subgroup stream writer the object IDs written increase
  strictly. \<^const>\<open>validatePublish\<close> skips the comparison while \<^verbatim>\<open>header_.id\<close> is
  \<open>2^64 - 1\<close>, the value it has before the first object, and an object written with
  that ID puts it back: after objects 5 and \<open>2^64 - 1\<close>, object 3 is written.
\<close>

theorem sentinel_id_admits_lower_id:
  "map_option (map hdr_id \<circ> objectsWritten)
     (subgroupRun
        [(SObject 5 abc False, True), (SObject 0xFFFFFFFFFFFFFFFF abc False, True),
         (SObject 3 abc False, True)]
        (newSubgroupStream 0 0 7 0)) = Some [5, 0xFFFFFFFFFFFFFFFF, 3]
   \<and> \<not> sorted_wrt (<) [5, 0xFFFFFFFFFFFFFFFF, 3 :: 64 word]"
  by (simp add: object_def setGroupAndSubgroup_def validatePublish_def
      writeCurrentObject_def writeToStream_def newFetchStream_def newSubgroupStream_def
      objectsWritten_def abc_def chainDataLength_def uint64_max_def Let_def word_le_nat_alt
      word_less_nat_alt)

text \<open>
  Claim C4, amended: on a subgroup stream writer the object IDs written increase
  strictly as long as no call uses the sentinel \<open>2^64 - 1\<close> as an object ID.
  \<^verbatim>\<open>object\<close>, every status-publishing operation and \<^verbatim>\<open>beginObject\<close>, called with an
  object ID not above the last one written (the last one not being the sentinel) or
  while a partial object is in progress, return API\_ERROR and reset the writer with
  INTERNAL\_ERROR: the handle is dropped, nothing is written, and
  \<^verbatim>\<open>resetStream(INTERNAL_ERROR)\<close> goes to the transport when the handle was still held.
  A call that succeeds had an ID above the last one (or met the sentinel) and leaves its
  ID as the last one.
\<close>

theorem objectID_must_advance:
  "((currentLengthRemaining w \<noteq> None
       \<or> (hdr_id (header w) \<noteq> uint64_max
         \<and> objectID \<le> hdr_id (header w))) \<longrightarrow>
      (\<exists>msg. publishCall c objectID wr w =
                Some (Inl (MoQPublishError API_ERROR msg), reset Reset_INTERNAL_ERROR w))
      \<and> \<not> writeHandle (reset Reset_INTERNAL_ERROR w)
      \<and> objectsWritten (reset Reset_INTERNAL_ERROR w) = objectsWritten w
      \<and> (writeHandle w \<longrightarrow>
           handleCalls (reset Reset_INTERNAL_ERROR w) =
             handleCalls w @ [ResetStream Reset_INTERNAL_ERROR]))
   \<and> (publishCall c objectID wr w = Some (Inr u, w') \<longrightarrow>
        (hdr_id (header w) = uint64_max \<or> hdr_id (header w) < objectID)
        \<and> hdr_id (header w') = objectID)
   \<and> (subgroupRun cs (newSubgroupStream sid trackAlias g sg) = Some w''
        \<and> (\<forall>c\<in>set cs. subgroupCallId (fst c) \<noteq> Some uint64_max)
          \<longrightarrow>
        sorted_wrt (<) (map hdr_id (objectsWritten w'')))"
  using publishCall_reject [of w objectID c wr] publishCall_accept [of c objectID wr w u "w'"]
        subgroupRun_ids_increasing [of cs sid trackAlias g sg "w''"]
  by (simp add: reset_fields)

subsection \<open>Order of the objects on a fetch stream\<close>

text \<open>
  Claim C6, as stated: the (group, subgroup, id) tuples written on a fetch stream never
  decrease. The writer compares groups and, within a group, ids; it never looks at the
  subgroup. Two objects of group 1, the first in subgroup 5 with id 0 and the second in
  subgroup 3 with id 1, are both written, and (1, 5, 0) is above (1, 3, 1).
\<close>

theorem fetch_subgroup_may_regress:
  "map_option (map tupleOf \<circ> objectsWritten)
     (fetchRun [(FObject 1 5 0 None False, True), (FObject 1 3 1 None False, True)]
        (newFetchStream 0)) = Some [(1, 5, 0), (1, 3, 1)]
   \<and> \<not> tupleLe (1, 5, 0) (1, 3, 1)"
  by (simp add: object_fetch_def object_def setGroupAndSubgroup_def validatePublish_def
      writeCurrentObject_def writeToStream_def newFetchStream_def objectsWritten_def
      tupleOf_def chainDataLength_def uint64_max_def Let_def word_le_nat_alt word_less_nat_alt)

text \<open>
  Claim C6, amended: on a fetch stream the groups written never decrease, and the
  (group, id) pairs increase strictly as long as no call uses the sentinel \<open>2^64 - 1\<close>
  as an ID; the subgroup is not ordered. An operation whose groupID is below the current
  group is rejected with API\_ERROR and changes nothing, a group advance puts the
  sentinel back into the last object ID, and the group in \<^verbatim>\<open>header_\<close> never goes down
  along a run.
\<close>

theorem fetch_group_never_regresses:
  "(groupID < hdr_group (header w) \<longrightarrow>
      object_fetch groupID subgroupID objectID payload fin wr w =
        Some (Inl (MoQPublishError API_ERROR ''Group moved back''), w)
      \<and> objectNotExists_fetch groupID subgroupID objectID fin wr w =
        Some (Inl (MoQPublishError API_ERROR ''Group moved back''), w)
      \<and> groupNotExists_fetch groupID subgroupID fin wr w =
        Some (Inl (MoQPublishError API_ERROR ''Group moved back''), w)
      \<and> beginObject_fetch groupID subgroupID objectID len payload wr w =
        Some (Inl (MoQPublishError API_ERROR ''Group moved back''), w)
      \<and> endOfGroup_fetch groupID subgroupID objectID fin wr w =
        Some (Inl (MoQPublishError API_ERROR ''Group moved back''), w)
      \<and> endOfTrackAndGroup_fetch groupID subgroupID objectID wr w =
        Some (Inl (MoQPublishError API_ERROR ''Group moved back''), w))
   \<and> (hdr_group (header w) < groupID \<longrightarrow>
        fst (setGroupAndSubgroup groupID subgroupID w)
        \<and> hdr_id (header (snd (setGroupAndSubgroup groupID subgroupID w))) = uint64_max
        \<and> hdr_group (header (snd (setGroupAndSubgroup groupID subgroupID w))) = groupID)
   \<and> (fetchRun cs (newFetchStream sid) = Some w1
     \<and> fetchRun cs' w1 = Some w2 \<longrightarrow>
        hdr_group (header w1) \<le> hdr_group (header w2)
        \<and> sorted (map hdr_group (objectsWritten w2)))
   \<and> (fetchRun cs (newFetchStream sid) = Some w1
        \<and> (\<forall>c\<in>set cs. fetchCallId (fst c) \<noteq> Some uint64_max)
          \<longrightarrow>
        sorted_wrt pairLess (map pairOf (objectsWritten w1)))"
proof (intro conjI impI)
  assume "fetchRun cs (newFetchStream sid) = Some w1 \<and> fetchRun cs' w1 = Some w2"
  then have a: "fetchRun cs (newFetchStream sid) = Some w1" and b: "fetchRun cs' w1 = Some w2"
    by simp_all
  from fetchRun_groupsAdvance [OF new_streams_advance(2) a] have g1: "groupsAdvance w1" ..
  from fetchRun_groupsAdvance [OF g1 b]
  show "hdr_group (header w1) \<le> hdr_group (header w2)"
    and "sorted (map hdr_group (objectsWritten w2))"
    by (simp_all add: groupsAdvance_def)
next
  assume "fetchRun cs (newFetchStream sid) = Some w1
        \<and> (\<forall>c\<in>set cs. fetchCallId (fst c) \<noteq> Some uint64_max)"
  with fetchRun_idsAdvance [OF new_streams_advance(1), where cs = cs and w' = w1 and i1 = sid]
  show "sorted_wrt pairLess (map pairOf (objectsWritten w1))"
    by (simp add: idsAdvance_def)
qed (auto simp add: object_fetch_def objectNotExists_fetch_def groupNotExists_fetch_def
      beginObject_fetch_def endOfGroup_fetch_def endOfTrackAndGroup_fetch_def
      setGroupAndSubgroup_def groupMovedBack_def Let_def dest: order.asym)

subsection \<open>Length accounting of a multi-part object\<close>

lemma chainDataLength_unat:
  "payloadSize p < 2 ^ 64 \<Longrightarrow> unat (chainDataLength p) = payloadSize p"
  by (cases p) (simp_all add: chainDataLength_def payloadSize_def unat_of_nat)

lemma objectPayload_exceeds:
  "currentLengthRemaining w = Some remaining
    \<Longrightarrow> remaining < chainDataLength payload \<Longrightarrow>
   objectPayload payload fin wr w =
     Some (Inl (MoQPublishError API_ERROR ''Length exceeds remaining in object''),
           reset Reset_INTERNAL_ERROR w)"
  by (simp add: objectPayload_def validateObjectPublishAndUpdateState_def Let_def)

lemma objectPayload_done:
  "currentLengthRemaining w = Some remaining
    \<Longrightarrow> chainDataLength payload = remaining \<Longrightarrow>
   writeHandle w \<Longrightarrow>
   \<exists>w'. objectPayload payload fin True w = Some (Inr DONE, w')
        \<and> currentLengthRemaining w' = None
        \<and> handleCalls w' = handleCalls w @ [WriteStreamData (writeBuf w @ [PayloadBytes
          payload]) fin]"
  by (simp add: objectPayload_def validateObjectPublishAndUpdateState_def writeToStream_def
      onStreamComplete_def Let_def)

lemma objectPayload_fin_early:
  "currentLengthRemaining w = Some remaining
    \<Longrightarrow> chainDataLength payload < remaining \<Longrightarrow>
   objectPayload payload True wr w =
     Some (Inl (MoQPublishError API_ERROR ''finStream with open object''),
           reset Reset_INTERNAL_ERROR
             (w\<lparr>currentLengthRemaining := Some (remaining - chainDataLength
               payload)\<rparr>))"
  by (auto simp add: objectPayload_def validateObjectPublishAndUpdateState_def Let_def)

lemma objectPayload_in_progress:
  "currentLengthRemaining w = Some remaining
    \<Longrightarrow> chainDataLength payload < remaining \<Longrightarrow>
   writeHandle w \<Longrightarrow>
   \<exists>w'. objectPayload payload False True w = Some (Inr IN_PROGRESS, w')
        \<and> currentLengthRemaining w' = Some (remaining - chainDataLength payload)
        \<and> writeHandle w'"
  by (auto simp add: objectPayload_def validateObjectPublishAndUpdateState_def writeToStream_def
      Let_def)

lemma beginObject_starts:
  "currentLengthRemaining w = None \<Longrightarrow> writeHandle w \<Longrightarrow>
   hdr_id (header w) = uint64_max \<or> hdr_id (header w) < objectID \<Longrightarrow>
   chainDataLength initialPayload < len \<Longrightarrow>
   \<exists>w'. beginObject objectID len initialPayload True w = Some (Inr (), w')
        \<and> currentLengthRemaining w' = Some (len - chainDataLength initialPayload)
        \<and> writeHandle w'"
  by (auto simp add: beginObject_def validatePublish_def validateObjectPublishAndUpdateState_def
      writeCurrentObject_def writeToStream_def Let_def)

lemma objectPayloads_total:
  "currentLengthRemaining w = Some remaining \<Longrightarrow> writeHandle w \<Longrightarrow>
   sum_list (map payloadSize ps) + payloadSize p = unat remaining
     \<Longrightarrow> 0 < payloadSize p \<Longrightarrow>
   \<exists>w1 w2. objectPayloads ps w = Some (replicate (length ps) IN_PROGRESS, w1)
          \<and> objectPayload p fin True w1 = Some (Inr DONE, w2)
          \<and> currentLengthRemaining w2 = None"
proof (induction ps arbitrary: w remaining)
  case Nil
  have bound: "unat remaining < 2 ^ 64"
    by (rule order_less_le_trans [OF unsigned_less]) simp
  with Nil have "payloadSize p < 2 ^ 64" by simp
  from chainDataLength_unat [OF this] Nil have "chainDataLength p = remaining"
    by (simp add: word_unat_eq_iff)
  from objectPayload_done [OF Nil(1) this Nil(2)] show ?case by auto
next
  case (Cons q ps)
  have lt: "payloadSize q < unat remaining" using Cons.prems by simp
  have bound: "unat remaining < 2 ^ 64"
    by (rule order_less_le_trans [OF unsigned_less]) simp
  with lt have "payloadSize q < 2 ^ 64" by simp
  from chainDataLength_unat [OF this] have u: "unat (chainDataLength q) = payloadSize q" .
  with lt have less: "chainDataLength q < remaining" by (simp add: word_less_nat_alt)
  from objectPayload_in_progress [OF Cons.prems(1) less Cons.prems(2)] obtain w' where
    w': "objectPayload q False True w = Some (Inr IN_PROGRESS, w')"
        "currentLengthRemaining w' = Some (remaining - chainDataLength q)" "writeHandle w'"
    by blast
  have "unat (remaining - chainDataLength q) = unat remaining - payloadSize q"
    using less u by (simp add: unat_sub word_le_nat_alt word_less_nat_alt)
  with Cons.prems have "sum_list (map payloadSize ps) + payloadSize p =
     unat (remaining - chainDataLength q)" by simp
  from Cons.IH [OF w'(2) w'(3) this Cons.prems(4)] obtain w1 w2 where
    "objectPayloads ps w' = Some (replicate (length ps) IN_PROGRESS, w1)"
    "objectPayload p fin True w1 = Some (Inr DONE, w2)" "currentLengthRemaining w2 = None"
    by blast
  with w'(1) show ?case by simp
qed

text \<open>
  Claim C5: \<^verbatim>\<open>beginObject(objectId, N, initialPayload)\<close> with a shorter initial payload
  leaves \<open>N - len(initialPayload)\<close> to deliver. With \<open>remaining\<close> to deliver,
  \<^verbatim>\<open>objectPayload\<close> rejects a longer payload with API\_ERROR and resets the stream with
  INTERNAL\_ERROR; a payload of exactly that length returns DONE and clears the object in
  progress; a shorter one with \<^verbatim>\<open>finStream\<close> is rejected with API\_ERROR and resets the
  stream; a shorter one without it returns IN\_PROGRESS and leaves \<open>remaining\<close> minus its
  length. So when the payloads of a run of calls add up to \<open>remaining\<close>, the last one
  not empty, every call before the last returns IN\_PROGRESS and the last returns DONE.
  DONE and IN\_PROGRESS are returned when the stream is open and the transport takes the
  write.
\<close>

theorem objectPayload_length_accounting:
  "(currentLengthRemaining w = None \<and> writeHandle w
      \<and> (hdr_id (header w) = uint64_max \<or> hdr_id (header w) < objectID)
      \<and> chainDataLength initialPayload < len \<longrightarrow>
      (\<exists>w'. beginObject objectID len initialPayload True w = Some (Inr (), w')
           \<and> currentLengthRemaining w' = Some (len - chainDataLength initialPayload)
           \<and> writeHandle w'))
   \<and> (currentLengthRemaining w = Some remaining \<longrightarrow>
        (remaining < chainDataLength payload \<longrightarrow>
           objectPayload payload fin wr w =
             Some (Inl (MoQPublishError API_ERROR ''Length exceeds remaining in object''),
                   reset Reset_INTERNAL_ERROR w))
        \<and> (chainDataLength payload = remaining \<and> writeHandle w \<longrightarrow>
             (\<exists>w'. objectPayload payload fin True w = Some (Inr DONE, w')
                  \<and> currentLengthRemaining w' = None))
        \<and> (chainDataLength payload < remaining \<longrightarrow>
             objectPayload payload True wr w =
               Some (Inl (MoQPublishError API_ERROR ''finStream with open object''),
                     reset Reset_INTERNAL_ERROR
                       (w\<lparr>currentLengthRemaining :=
                            Some (remaining - chainDataLength payload)\<rparr>)))
        \<and> (chainDataLength payload < remaining \<and> writeHandle w \<longrightarrow>
             (\<exists>w'. objectPayload payload False True w = Some (Inr IN_PROGRESS, w')
                  \<and> currentLengthRemaining w' = Some (remaining - chainDataLength payload)
                  \<and> writeHandle w'))
        \<and> (writeHandle w
             \<and> sum_list (map payloadSize ps) + payloadSize payload = unat remaining
             \<and> 0 < payloadSize payload \<longrightarrow>
             (\<exists>w1 w2. objectPayloads ps w = Some (replicate (length ps) IN_PROGRESS, w1)
                    \<and> objectPayload payload fin True w1 = Some (Inr DONE, w2)
                    \<and> currentLengthRemaining w2 = None))
        \<and> (writeHandle w \<longrightarrow>
             handleCalls (reset Reset_INTERNAL_ERROR w) =
               handleCalls w @ [ResetStream Reset_INTERNAL_ERROR]
             \<and> handleCalls
                 (reset Reset_INTERNAL_ERROR
                    (w\<lparr>currentLengthRemaining :=
                         Some (remaining - chainDataLength payload)\<rparr>)) =
               handleCalls w @ [ResetStream Reset_INTERNAL_ERROR]))"
  using beginObject_starts [of w objectID initialPayload len]
        objectPayload_exceeds [of w remaining payload fin wr]
        objectPayload_done [of w remaining payload fin]
        objectPayload_fin_early [of w remaining payload wr]
        objectPayload_in_progress [of w remaining payload]
        objectPayloads_total [of w remaining ps payload fin]
  by (auto simp add: reset_fields)

subsection \<open>The writer's properties at sample inputs\<close>

lemmas writer_defs =
  subgroupAfter_def fetchAfter_def abc_def object_def publishStatus_def objectNotExists_def
    beginObject_def
  objectPayload_def endOfGroup_def endOfTrackAndGroup_def endOfSubgroup_def
  object_fetch_def objectNotExists_fetch_def groupNotExists_fetch_def beginObject_fetch_def
  endOfGroup_fetch_def endOfTrackAndGroup_fetch_def endOfFetch_def groupMovedBack_def
  setGroupAndSubgroup_def validatePublish_def validateObjectPublishAndUpdateState_def
  writeCurrentObject_def writeToStream_def reset_def onStreamComplete_def
  newFetchStream_def newSubgroupStream_def chainDataLength_def uint64_max_def
  objectsWritten_def Let_def word_le_nat_alt word_less_nat_alt

lemma w3: "subgroupRun [(SObject 3 abc False, True)] (newSubgroupStream 0 0 7 0) = Some
  (subgroupAfter [(SObject 3 abc False, True)])"
  by (simp add: writer_defs)

lemma w34: "subgroupRun [(SObject 3 abc False, True), (SObject 4 abc True, True)]
  (newSubgroupStream 0 0 7 0) = Some (subgroupAfter [(SObject 3 abc False, True), (SObject 4 abc
  True, True)])"
  by (simp add: writer_defs)

lemma w3_fields:
  "hdr_id (header (subgroupAfter [(SObject 3 abc False, True)])) = 3"
  "writeHandle (subgroupAfter [(SObject 3 abc False, True)])"
  "currentLengthRemaining (subgroupAfter [(SObject 3 abc False, True)]) = None"
  by (simp_all add: writer_defs)

text \<open>The stream of scenario S2 after object 3: object 3 again is refused and the stream
  reset, object 4 is written.\<close>

theorem objectID_must_advance_witness:
  "hdr_id (header (subgroupAfter [(SObject 3 abc False, True)])) \<noteq> uint64_max
   \<and> 3 \<le> hdr_id (header (subgroupAfter [(SObject 3 abc False, True)]))
   \<and> writeHandle (subgroupAfter [(SObject 3 abc False, True)])
   \<and> publishCall (PObject abc False) 3 True (subgroupAfter [(SObject 3 abc False, True)]) =
       Some (Inl (MoQPublishError API_ERROR ''Object ID not advancing in subgroup''),
             reset Reset_INTERNAL_ERROR (subgroupAfter [(SObject 3 abc False, True)]))
   \<and> handleCalls (reset Reset_INTERNAL_ERROR (subgroupAfter [(SObject 3 abc False, True)])) =
       handleCalls (subgroupAfter [(SObject 3 abc False, True)])
       @ [ResetStream Reset_INTERNAL_ERROR]
   \<and> publishCall (PObject abc True) 4 True (subgroupAfter [(SObject 3 abc False, True)]) =
       Some (Inr (), subgroupAfter [(SObject 3 abc False, True), (SObject 4 abc True, True)])
   \<and> hdr_id (header (subgroupAfter [(SObject 3 abc False, True), (SObject 4 abc True,
     True)])) = 4
   \<and> subgroupRun [(SObject 3 abc False, True), (SObject 4 abc True, True)]
        (newSubgroupStream 0 0 7 0) =
       Some (subgroupAfter [(SObject 3 abc False, True), (SObject 4 abc True, True)])
   \<and> sorted_wrt (<) (map hdr_id
        (objectsWritten (subgroupAfter [(SObject 3 abc False, True), (SObject 4 abc True,
          True)])))"
proof -
  let ?w3 = "subgroupAfter [(SObject 3 abc False, True)]"
  let ?w34 = "subgroupAfter [(SObject 3 abc False, True), (SObject 4 abc True, True)]"
  have h1: "hdr_id (header ?w3) \<noteq> uint64_max \<and> 3 \<le> hdr_id (header ?w3)"
    by (simp add: w3_fields uint64_max_def)
  have h2: "publishCall (PObject abc True) 4 True ?w3 = Some (Inr (), ?w34)"
    by (simp add: writer_defs)
  have h3: "\<forall>c\<in>set [(SObject 3 abc False, True), (SObject 4 abc True, True)].
              subgroupCallId (fst c) \<noteq> Some uint64_max"
    by (simp add: uint64_max_def)
  have r: "publishCall (PObject abc False) 3 True ?w3 =
       Some (Inl (MoQPublishError API_ERROR ''Object ID not advancing in subgroup''),
             reset Reset_INTERNAL_ERROR ?w3)"
    by (simp add: object_def validatePublish_def w3_fields uint64_max_def)
  note t = objectID_must_advance [where w = ?w3 and objectID = 3 and c = "PObject abc False" and
    wr = True
                 and cs = "[(SObject 3 abc False, True), (SObject 4 abc True, True)]"
                 and sid = 0 and trackAlias = 0 and g = 7 and sg = 0 and w'' = ?w34]
  note t2 = objectID_must_advance [where w = ?w3 and objectID = 4 and c = "PObject abc True" and
    wr = True
                 and u = "()" and w' = ?w34]
  from t h1 w3_fields(2) have c2:
    "handleCalls (reset Reset_INTERNAL_ERROR ?w3) =
       handleCalls ?w3 @ [ResetStream Reset_INTERNAL_ERROR]"
    by blast
  from t w34 h3 have c3: "sorted_wrt (<) (map hdr_id (objectsWritten ?w34))"
    by blast
  from t2 h2 have c4: "hdr_id (header ?w34) = 4"
    by blast
  from h1 w3_fields(2) r c2 h2 c4 w34 c3 show ?thesis by blast
qed

lemmas payload_defs = ab_def c1_def de_def abcd_def payloadSize_def

lemma begun:
  "beginObject 0 5 ab True (newSubgroupStream 0 0 7 0) =
     Some (Inr (), subgroupAfter [(SBeginObject 0 5 ab, True)])"
  "currentLengthRemaining (subgroupAfter [(SBeginObject 0 5 ab, True)]) = Some 3"
  "writeHandle (subgroupAfter [(SBeginObject 0 5 ab, True)])"
  by (simp_all add: writer_defs payload_defs)

lemma begun_c1:
  "objectPayloads [c1] (subgroupAfter [(SBeginObject 0 5 ab, True)]) =
     Some ([IN_PROGRESS],
           subgroupAfter [(SBeginObject 0 5 ab, True), (SObjectPayload c1 False, True)])"
  by (simp add: writer_defs payload_defs)

text \<open>An object of 5 bytes begun with 2: 4 more bytes are refused, 3 bytes complete it,
  1 byte with \<^verbatim>\<open>finStream\<close> is refused, 1 byte then 2 bytes give IN\_PROGRESS then
  DONE.\<close>

theorem objectPayload_length_accounting_witness:
  "beginObject 0 5 ab True (newSubgroupStream 0 0 7 0) =
     Some (Inr (), subgroupAfter [(SBeginObject 0 5 ab, True)])
   \<and> currentLengthRemaining (subgroupAfter [(SBeginObject 0 5 ab, True)]) = Some 3
   \<and> writeHandle (subgroupAfter [(SBeginObject 0 5 ab, True)])
   \<and> objectPayload abcd False True (subgroupAfter [(SBeginObject 0 5 ab, True)]) =
       Some (Inl (MoQPublishError API_ERROR ''Length exceeds remaining in object''),
             reset Reset_INTERNAL_ERROR (subgroupAfter [(SBeginObject 0 5 ab, True)]))
   \<and> handleCalls (reset Reset_INTERNAL_ERROR (subgroupAfter [(SBeginObject 0 5 ab, True)])) =
       handleCalls (subgroupAfter [(SBeginObject 0 5 ab, True)])
       @ [ResetStream Reset_INTERNAL_ERROR]
   \<and> map_option fst (objectPayload abc True True (subgroupAfter [(SBeginObject 0 5 ab,
     True)])) =
       Some (Inr DONE)
   \<and> map_option fst (objectPayload c1 True True (subgroupAfter [(SBeginObject 0 5 ab,
     True)])) =
       Some (Inl (MoQPublishError API_ERROR ''finStream with open object''))
   \<and> map_option fst (objectPayload c1 False True (subgroupAfter [(SBeginObject 0 5 ab,
     True)])) =
       Some (Inr IN_PROGRESS)
   \<and> map_option fst (objectPayloads [c1] (subgroupAfter [(SBeginObject 0 5 ab, True)])) =
       Some [IN_PROGRESS]
   \<and> map_option fst
        (objectPayload de False True
           (subgroupAfter [(SBeginObject 0 5 ab, True), (SObjectPayload c1 False, True)])) =
       Some (Inr DONE)"
proof -
  let ?start = "newSubgroupStream 0 0 7 0"
  let ?begun = "subgroupAfter [(SBeginObject 0 5 ab, True)]"
  let ?next = "subgroupAfter [(SBeginObject 0 5 ab, True), (SObjectPayload c1 False, True)]"
  have s: "chainDataLength abcd = 4" "chainDataLength abc = 3" "chainDataLength c1 = 1"
    "chainDataLength de = 2" "chainDataLength ab = 2"
    by (simp_all add: chainDataLength_def payload_defs abc_def)
  have gt: "(3::64 word) < 4" "(1::64 word) < 3" "(2::64 word) < 5"
    by (simp_all add: word_less_nat_alt)
  have h0: "currentLengthRemaining ?start = None \<and> writeHandle ?start
      \<and> (hdr_id (header ?start) = uint64_max \<or> hdr_id (header ?start) < 0)
      \<and> chainDataLength ab < 5"
    using gt s by (simp add: newSubgroupStream_def newFetchStream_def setGroupAndSubgroup_def
        Let_def)
  have total: "sum_list (map payloadSize [c1]) + payloadSize de = unat (3::64 word)"
    "0 < payloadSize de"
    by (simp_all add: payload_defs)
  note t0 = objectPayload_length_accounting [where w = ?start and objectID = 0 and len = 5 and
    initialPayload = ab,
                THEN conjunct1, THEN mp, OF h0]
  from t0 begun(1) have b: "currentLengthRemaining ?begun = Some (5 - chainDataLength ab)"
    by auto
  from objectPayload_length_accounting [where w = ?begun and remaining = 3 and payload = abcd and
    fin = False and wr = True and ps = "[]",
           THEN conjunct2, THEN mp, OF begun(2)] s gt
  have e1: "objectPayload abcd False True ?begun =
       Some (Inl (MoQPublishError API_ERROR ''Length exceeds remaining in object''),
             reset Reset_INTERNAL_ERROR ?begun)"
    by simp
  from objectPayload_length_accounting [where w = ?begun and remaining = 3 and payload = abc and
    fin = True and wr = True and ps = "[]",
           THEN conjunct2, THEN mp, OF begun(2)] s begun(3)
  have e2: "map_option fst (objectPayload abc True True ?begun) = Some (Inr DONE)"
    by auto
  from objectPayload_length_accounting [where w = ?begun and remaining = 3 and payload = c1 and
    wr = True and fin = True and ps = "[]",
           THEN conjunct2, THEN mp, OF begun(2)] s gt
  have e3: "map_option fst (objectPayload c1 True True ?begun) =
       Some (Inl (MoQPublishError API_ERROR ''finStream with open object''))"
    by simp
  from objectPayload_length_accounting [where w = ?begun and remaining = 3 and payload = c1 and
    wr = True and fin = False and ps = "[]",
           THEN conjunct2, THEN mp, OF begun(2)] s gt begun(3)
  have e4: "map_option fst (objectPayload c1 False True ?begun) = Some (Inr IN_PROGRESS)"
    by auto
  from objectPayload_length_accounting [where w = ?begun and remaining = 3 and payload = de and
    ps = "[c1]" and fin = False and wr = True,
           THEN conjunct2, THEN mp, OF begun(2)] total begun(3) begun_c1
  have e5: "map_option fst (objectPayload de False True ?next) = Some (Inr DONE)"
    by auto
  from objectPayload_length_accounting [where w = ?begun and remaining = 3 and payload = abc and
    fin = False and wr = True and ps = "[]",
           THEN conjunct2, THEN mp, OF begun(2)] begun(3) have e6: "handleCalls (reset
             Reset_INTERNAL_ERROR ?begun) =
       handleCalls ?begun @ [ResetStream Reset_INTERNAL_ERROR]"
    by blast
  from begun e1 e2 e3 e4 e5 e6 begun_c1 show ?thesis by simp
qed

lemma f5:
  "fetchRun [(FObject 5 0 7 abc False, True)] (newFetchStream 0) =
     Some (fetchAfter [(FObject 5 0 7 abc False, True)])"
  "fetchRun [(FObject 6 0 0 abc False, True)] (fetchAfter [(FObject 5 0 7 abc False, True)]) =
     Some (fetchAfter [(FObject 5 0 7 abc False, True), (FObject 6 0 0 abc False, True)])"
  "hdr_group (header (fetchAfter [(FObject 5 0 7 abc False, True)])) = 5"
  "hdr_id (header (fetchAfter [(FObject 5 0 7 abc False, True)])) = 7"
  "map tupleOf (objectsWritten
      (fetchAfter [(FObject 5 0 7 abc False, True), (FObject 6 0 0 abc False, True)])) =
     [(5, 0, 7), (6, 0, 0)]"
  by (simp_all add: writer_defs tupleOf_def)

text \<open>A fetch stream after object 7 of group 5: group 3 is refused, group 6 starts
  again at id 0.\<close>

theorem fetch_group_never_regresses_witness:
  "(3::64 word) < hdr_group (header (fetchAfter [(FObject 5 0 7 abc False, True)]))
   \<and> hdr_group (header (fetchAfter [(FObject 5 0 7 abc False, True)])) < 6
   \<and> object_fetch 3 0 8 abc False True (fetchAfter [(FObject 5 0 7 abc False, True)]) =
       Some (Inl (MoQPublishError API_ERROR ''Group moved back''),
             fetchAfter [(FObject 5 0 7 abc False, True)])
   \<and> hdr_id (header (fetchAfter [(FObject 5 0 7 abc False, True)])) = 7
   \<and> hdr_id (header (snd (setGroupAndSubgroup 6 0
        (fetchAfter [(FObject 5 0 7 abc False, True)])))) = uint64_max
   \<and> fetchRun [(FObject 5 0 7 abc False, True)] (newFetchStream 0) =
       Some (fetchAfter [(FObject 5 0 7 abc False, True)])
   \<and> fetchRun [(FObject 6 0 0 abc False, True)] (fetchAfter [(FObject 5 0 7 abc False,
     True)]) =
       Some (fetchAfter [(FObject 5 0 7 abc False, True), (FObject 6 0 0 abc False, True)])
   \<and> map tupleOf (objectsWritten
        (fetchAfter [(FObject 5 0 7 abc False, True), (FObject 6 0 0 abc False, True)])) =
       [(5, 0, 7), (6, 0, 0)]
   \<and> sorted (map hdr_group (objectsWritten
        (fetchAfter [(FObject 5 0 7 abc False, True), (FObject 6 0 0 abc False, True)])))
   \<and> sorted_wrt pairLess (map pairOf (objectsWritten
        (fetchAfter [(FObject 5 0 7 abc False, True)])))"
proof -
  let ?first = "fetchAfter [(FObject 5 0 7 abc False, True)]"
  let ?last = "fetchAfter [(FObject 5 0 7 abc False, True), (FObject 6 0 0 abc False, True)]"
  have h1: "(3::64 word) < hdr_group (header ?first)" and h2: "hdr_group (header ?first) < 6"
    by (simp_all add: f5 word_less_nat_alt)
  have h3: "\<forall>c\<in>set [(FObject 5 0 7 abc False, True)]. fetchCallId (fst c) \<noteq>
    Some uint64_max"
    by (simp add: uint64_max_def)
  note t = fetch_group_never_regresses [where w = ?first and groupID = 3 and subgroupID = 0 and
    objectID = 8
                 and payload = abc and fin = False and wr = True]
  note t' = fetch_group_never_regresses [where w = ?first and groupID = 6 and subgroupID = 0
                 and cs = "[(FObject 5 0 7 abc False, True)]" and sid = 0 and ?w1.0 = ?first
                 and cs' = "[(FObject 6 0 0 abc False, True)]" and ?w2.0 = ?last]
  from t h1 have e1: "object_fetch 3 0 8 abc False True ?first =
       Some (Inl (MoQPublishError API_ERROR ''Group moved back''), ?first)"
    by blast
  from t' h2 have e2: "hdr_id (header (snd (setGroupAndSubgroup 6 0 ?first))) = uint64_max"
    by blast
  from t' f5(1,2) have e3: "sorted (map hdr_group (objectsWritten ?last))"
    by blast
  from t' f5(1) h3 have e4: "sorted_wrt pairLess (map pairOf (objectsWritten ?first))"
    by blast
  from h1 h2 e1 e2 e3 e4 f5 show ?thesis by blast
qed

end
